theory Spec2Isabelle
  imports Complex_Main "HOL-Library.AList"
begin

section \<open>Data model\<close>

text \<open>
  The position and paper-trade ledgers of the trading bots, and the two orchestration
  loops built on them (\<^verbatim>\<open>position_tracker.py\<close>, \<^verbatim>\<open>paper_trader.py\<close>,
  \<^verbatim>\<open>trading_bot.py\<close>, \<^verbatim>\<open>btc_15min_bot.py\<close>, \<^verbatim>\<open>strategies/base_strategy.py\<close>).

  Conventions of the embedding:
  \<^item> a Python \<^verbatim>\<open>float\<close> is a \<^typ>\<open>real\<close> (arithmetic is exact, rounding is not modelled),
    a Python \<^verbatim>\<open>int\<close> is an \<^typ>\<open>int\<close>, a \<^verbatim>\<open>str\<close> is a \<^typ>\<open>string\<close>;
  \<^item> a \<^verbatim>\<open>datetime\<close> is represented by its ISO-8601 text, so \<^verbatim>\<open>isoformat()\<close> is the
    identity; a reading of \<^verbatim>\<open>datetime.utcnow()\<close> is an explicit argument;
  \<^item> a \<^verbatim>\<open>dict\<close> is an association list in insertion order, read with \<^const>\<open>map_of\<close>,
    written with \<^const>\<open>AList.update\<close> (in place for a known key, appended for a new
    one) and \<^const>\<open>AList.delete\<close>;
  \<^item> the fields of each dataclass carry a prefix, since several classes share field
    names: \<open>p_\<close> for \<^verbatim>\<open>Position\<close>, \<open>pt_\<close> for \<^verbatim>\<open>PaperTrade\<close>, \<open>t_\<close> for
    \<^verbatim>\<open>Trade\<close>, \<open>m_\<close> for \<^verbatim>\<open>Market\<close>, \<open>s_\<close> for a strategy;
  \<^item> writing a ledger to its JSON file does not change the ledger in memory (a failed
    write is caught and logged in the source), so the file is not part of the state;
  \<^item> of the log, only the records of level WARNING and above are kept.
\<close>

type_synonym timestamp = string

datatype log_level = WARNING | ERROR

record position =
  p_strategy_name :: string
  p_market_id :: string
  p_question :: string
  p_side :: string
  p_shares :: int
  p_entry_price :: real
  p_entry_time :: timestamp
  p_market_close_time :: timestamp

record market =
  m_id :: string
  m_question :: string
  m_end_date :: timestamp
  m_yes_price :: real
  m_no_price :: real
  m_volume :: real
  m_active :: bool

record trade =
  t_market_id :: string
  t_question :: string
  t_side :: string
  t_amount :: int
  t_price :: real
  t_reason :: string
  t_action :: string

record trade_signal =
  sg_trade :: trade
  sg_market :: market

section \<open>Position ledger (\<^verbatim>\<open>PositionTracker\<close>)\<close>

type_synonym position_tracker = "(string \<times> position) list"

definition position_key :: "string \<Rightarrow> string \<Rightarrow> string \<Rightarrow> string" where
  "position_key strategy_name market_id side =
     strategy_name @ '':'' @ market_id @ '':'' @ side"

text \<open>
  \<^verbatim>\<open>PositionTracker.add_position\<close>. The argument \<open>now\<close> is the reading of the
  clock taken when a new position is created. The result is the returned key and the
  dictionary after the call.
\<close>

definition add_position ::
  "timestamp \<Rightarrow> string \<Rightarrow> string \<Rightarrow> string \<Rightarrow> string \<Rightarrow> int \<Rightarrow> real \<Rightarrow> timestamp
     \<Rightarrow> position_tracker \<Rightarrow> string \<times> position_tracker" where
  "add_position now strategy_name market_id question side shares entry_price
       market_close_time positions =
     (let key = position_key strategy_name market_id side in
      case map_of positions key of
        Some existing \<Rightarrow>
          (let total_shares = p_shares existing + shares in
           if total_shares = 0 then
             (key, AList.delete key positions)
           else
             (let total_cost = of_int (p_shares existing) * p_entry_price existing
                                + of_int shares * entry_price
              in (key,
                  AList.update key
                    (existing\<lparr>p_shares := total_shares,
                              p_entry_price := total_cost / of_int total_shares\<rparr>)
                    positions)))
      | None \<Rightarrow>
          (key,
           AList.update key
             \<lparr>p_strategy_name = strategy_name, p_market_id = market_id,
              p_question = question, p_side = side, p_shares = shares,
              p_entry_price = entry_price, p_entry_time = now,
              p_market_close_time = market_close_time\<rparr>
             positions))"

definition get_position ::
  "string \<Rightarrow> string \<Rightarrow> string \<Rightarrow> position_tracker \<Rightarrow> position option" where
  "get_position strategy_name market_id side positions =
     map_of positions (position_key strategy_name market_id side)"

definition get_market_positions :: "string \<Rightarrow> position_tracker \<Rightarrow> position list" where
  "get_market_positions market_id positions =
     filter (\<lambda>p. p_market_id p = market_id) (map snd positions)"

definition get_strategy_positions :: "string \<Rightarrow> position_tracker \<Rightarrow> position list" where
  "get_strategy_positions strategy_name positions =
     filter (\<lambda>p. p_strategy_name p = strategy_name) (map snd positions)"

definition get_all_positions :: "position_tracker \<Rightarrow> position list" where
  "get_all_positions positions = map snd positions"

definition get_total_exposure :: "position_tracker \<Rightarrow> real" where
  "get_total_exposure positions =
     sum_list (map (\<lambda>p. \<bar>of_int (p_shares p) * p_entry_price p\<bar>) (map snd positions))"

text \<open>
  One call of \<^const>\<open>add_position\<close> as a value, and a sequence of calls applied in
  order, each with its own clock reading.
\<close>

record upsert =
  u_now :: timestamp
  u_strategy_name :: string
  u_market_id :: string
  u_question :: string
  u_side :: string
  u_shares :: int
  u_entry_price :: real
  u_market_close_time :: timestamp

definition upsert_key :: "upsert \<Rightarrow> string" where
  "upsert_key u = position_key (u_strategy_name u) (u_market_id u) (u_side u)"

definition apply_upsert :: "upsert \<Rightarrow> position_tracker \<Rightarrow> position_tracker" where
  "apply_upsert u positions =
     snd (add_position (u_now u) (u_strategy_name u) (u_market_id u) (u_question u)
            (u_side u) (u_shares u) (u_entry_price u) (u_market_close_time u) positions)"

fun apply_upserts :: "upsert list \<Rightarrow> position_tracker \<Rightarrow> position_tracker" where
  "apply_upserts [] positions = positions"
| "apply_upserts (u # us) positions = apply_upserts us (apply_upsert u positions)"

text \<open>The shares recorded under a key: those of the position, or none when it is absent.\<close>

definition held_shares :: "position_tracker \<Rightarrow> string \<Rightarrow> int" where
  "held_shares positions k = (case map_of positions k of None \<Rightarrow> 0 | Some p \<Rightarrow> p_shares p)"

text \<open>The sum of the share deltas that a sequence of calls applies to one key.\<close>

definition delta_sum :: "string \<Rightarrow> upsert list \<Rightarrow> int" where
  "delta_sum k us = sum_list (map u_shares (filter (\<lambda>u. upsert_key u = k) us))"

text \<open>No record of the ledger holds zero shares.\<close>

definition no_zero_position :: "position_tracker \<Rightarrow> bool" where
  "no_zero_position positions = list_all (\<lambda>(k, p). p_shares p \<noteq> 0) positions"

section \<open>Paper trade ledger (\<^verbatim>\<open>PaperTradingTracker\<close>)\<close>

record paper_trade =
  pt_trade_id :: string
  pt_market_id :: string
  pt_question :: string
  pt_side :: string
  pt_amount :: int
  pt_entry_price :: real
  pt_entry_time :: timestamp
  pt_reason :: string
  pt_volume :: real
  pt_market_end_date :: timestamp
  pt_resolved :: bool
  pt_resolution_outcome :: "string option"
  pt_exit_price :: "real option"
  pt_profit_loss :: "real option"

type_synonym paper_tracker = "(string \<times> paper_trade) list"

text \<open>
  \<^verbatim>\<open>PaperTrade.calculate_pnl\<close>: the returned profit and the record after the two
  assignments.
\<close>

definition calculate_pnl :: "string \<Rightarrow> paper_trade \<Rightarrow> real \<times> paper_trade" where
  "calculate_pnl winning_side self =
     (let cost = pt_entry_price self * of_int (pt_amount self);
          profit = (if pt_side self = winning_side
                    then (let payout = 1 * of_int (pt_amount self) in payout - cost)
                    else - cost)
      in (profit,
          self\<lparr>pt_profit_loss := Some profit,
                pt_exit_price := Some (if pt_side self = winning_side then 1 else 0)\<rparr>))"

text \<open>
  \<^verbatim>\<open>PaperTradingTracker.add_trade\<close>. The clock is read twice, for the trade id
  (\<open>now_id\<close>) and for the entry time (\<open>now_entry\<close>).
\<close>

definition add_trade ::
  "timestamp \<Rightarrow> timestamp \<Rightarrow> trade \<Rightarrow> timestamp \<Rightarrow> real \<Rightarrow> paper_tracker
     \<Rightarrow> string \<times> paper_tracker" where
  "add_trade now_id now_entry trade market_end_date volume trades =
     (let trade_id = t_market_id trade @ '':'' @ t_side trade @ '':'' @ now_id;
          paper_trade =
            \<lparr>pt_trade_id = trade_id, pt_market_id = t_market_id trade,
             pt_question = t_question trade, pt_side = t_side trade,
             pt_amount = t_amount trade, pt_entry_price = t_price trade,
             pt_entry_time = now_entry, pt_reason = t_reason trade, pt_volume = volume,
             pt_market_end_date = market_end_date, pt_resolved = False,
             pt_resolution_outcome = None, pt_exit_price = None, pt_profit_loss = None\<rparr>
      in (trade_id, AList.update trade_id paper_trade trades))"

text \<open>
  \<^verbatim>\<open>PaperTradingTracker.resolve_trade\<close>: the dictionary after the call and the log
  records it emits (the message for an unknown id is a warning, the one for a resolved
  trade is a debug message).
\<close>

definition resolve_trade ::
  "string \<Rightarrow> string \<Rightarrow> paper_tracker \<Rightarrow> paper_tracker \<times> log_level list" where
  "resolve_trade trade_id winning_side trades =
     (case map_of trades trade_id of
        None \<Rightarrow> (trades, [WARNING])
      | Some trade \<Rightarrow>
          if pt_resolved trade then (trades, [])
          else
            (let trade1 = trade\<lparr>pt_resolved := True,
                                 pt_resolution_outcome := Some winning_side\<rparr>;
                 (pnl, trade2) = calculate_pnl winning_side trade1
             in (AList.update trade_id trade2 trades, [])))"

text \<open>
  The truth value Python gives to an optional float: \<^verbatim>\<open>None\<close> and \<^verbatim>\<open>0.0\<close> are
  false.
\<close>

fun truthy :: "real option \<Rightarrow> bool" where
  "truthy None = False"
| "truthy (Some x) = (x \<noteq> 0)"

record stats =
  st_total_trades :: nat
  st_resolved_trades :: nat
  st_pending_trades :: nat
  st_winning_trades :: nat
  st_losing_trades :: nat
  st_win_rate :: real
  st_total_profit :: real
  st_total_invested :: real
  st_roi :: real

text \<open>
  Python's true division raises \<^verbatim>\<open>ZeroDivisionError\<close> on a zero divisor; the
  statistics are computed with that division, so that an unguarded division would
  show as an error result.
\<close>

datatype py_error = ZeroDivisionError

definition py_div :: "real \<Rightarrow> real \<Rightarrow> py_error + real" where
  "py_div a b = (if b = 0 then Inl ZeroDivisionError else Inr (a / b))"

definition get_stats :: "paper_tracker \<Rightarrow> py_error + stats" where
  "get_stats trades =
     (let total_trades = length trades;
          resolved_trades = filter (\<lambda>t. pt_resolved t) (map snd trades);
          pending_trades = filter (\<lambda>t. \<not> pt_resolved t) (map snd trades);
          winning_trades =
            filter (\<lambda>t. truthy (pt_profit_loss t)
                         \<and> (case pt_profit_loss t of Some x \<Rightarrow> x > 0 | None \<Rightarrow> False))
              resolved_trades;
          losing_trades =
            filter (\<lambda>t. truthy (pt_profit_loss t)
                         \<and> (case pt_profit_loss t of Some x \<Rightarrow> x \<le> 0 | None \<Rightarrow> False))
              resolved_trades;
          total_profit =
            sum_list (concat (map (\<lambda>t. case pt_profit_loss t of
                                          Some x \<Rightarrow> (if x \<noteq> 0 then [x] else [])
                                        | None \<Rightarrow> [])
                                resolved_trades));
          total_invested =
            sum_list (map (\<lambda>t. pt_entry_price t * of_int (pt_amount t)) (map snd trades))
      in case (if resolved_trades \<noteq> []
               then (case py_div (of_nat (length winning_trades))
                                 (of_nat (length resolved_trades)) of
                       Inl e \<Rightarrow> Inl e | Inr q \<Rightarrow> Inr (q * 100))
               else Inr 0) of
           Inl e \<Rightarrow> Inl e
         | Inr win_rate \<Rightarrow>
             (case (if total_invested > 0
                    then (case py_div total_profit total_invested of
                            Inl e \<Rightarrow> Inl e | Inr q \<Rightarrow> Inr (q * 100))
                    else Inr 0) of
                Inl e \<Rightarrow> Inl e
              | Inr roi \<Rightarrow>
                  Inr \<lparr>st_total_trades = total_trades,
                       st_resolved_trades = length resolved_trades,
                       st_pending_trades = length pending_trades,
                       st_winning_trades = length winning_trades,
                       st_losing_trades = length losing_trades,
                       st_win_rate = win_rate,
                       st_total_profit = total_profit,
                       st_total_invested = total_invested,
                       st_roi = roi\<rparr>))"

definition get_pending_trades :: "paper_tracker \<Rightarrow> paper_trade list" where
  "get_pending_trades trades = filter (\<lambda>t. \<not> pt_resolved t) (map snd trades)"

section \<open>Strategies and the collaborators of the orchestrators\<close>

text \<open>
  A strategy (\<^verbatim>\<open>BaseStrategy\<close>) has a name, an enabled flag and the method
  \<^verbatim>\<open>analyze(markets, positions=None)\<close>, which returns trade signals or raises; the
  exception is the left value, carrying its message.

  The client's \<^verbatim>\<open>execute_trade\<close> is a function from the trade to its success. The
  clock is a function from the number of readings made so far to the next reading;
  each orchestrator state counts the readings in its \<open>tick\<close> (a ledger call that may
  read the clock advances it whether or not the reading is used).
\<close>

record strategy =
  s_name :: string
  s_enabled :: bool
  s_analyze :: "market list \<Rightarrow> position list option \<Rightarrow> string + trade_signal list"

type_synonym client = "trade \<Rightarrow> bool"

type_synonym clock = "nat \<Rightarrow> timestamp"

section \<open>The general orchestrator (\<^verbatim>\<open>TradingBot\<close>)\<close>

text \<open>Python's \<^verbatim>\<open>str\<close> of an integer, as the f-string of the trade key prints it.\<close>

fun digits :: "nat \<Rightarrow> string" where
  "digits n =
     (if n < 10 then [''0123456789'' ! n]
      else digits (n div 10) @ [''0123456789'' ! (n mod 10)])"

declare digits.simps [simp del]

definition str_int :: "int \<Rightarrow> string" where
  "str_int i = (if i < 0 then ''-'' @ digits (nat (- i)) else digits (nat i))"

definition trade_key :: "trade \<Rightarrow> string" where
  "trade_key trade =
     t_market_id trade @ '':'' @ t_side trade @ '':'' @ str_int (t_amount trade)"

definition sig_key :: "trade_signal \<Rightarrow> string" where
  "sig_key signal = trade_key (sg_trade signal)"

record trading_bot =
  tb_strategies :: "strategy list"
  tb_dry_run :: bool
  tb_executed_trades :: "string set"
  tb_paper_trader :: "paper_tracker option"
  tb_tick :: nat
  tb_log :: "log_level list"

text \<open>
  The first loop of \<^verbatim>\<open>TradingBot.run_once\<close>: the signals of the enabled
  strategies, in order, and the log; a strategy that raises adds an error record and
  no signal.
\<close>

fun TradingBot_collect_signals ::
  "market list \<Rightarrow> strategy list \<Rightarrow> trade_signal list \<times> log_level list
     \<Rightarrow> trade_signal list \<times> log_level list" where
  "TradingBot_collect_signals markets [] acc = acc"
| "TradingBot_collect_signals markets (strategy # rest) (all_signals, lg) =
     TradingBot_collect_signals markets rest
       (if \<not> s_enabled strategy then (all_signals, lg)
        else (case s_analyze strategy markets None of
                Inr signals \<Rightarrow> (all_signals @ signals, lg)
              | Inl e \<Rightarrow> (all_signals, lg @ [ERROR])))"

text \<open>The body of the second loop, on the pair of \<open>executed_count\<close> and the orchestrator state.\<close>

fun TradingBot_execute_signal ::
  "client \<Rightarrow> clock \<Rightarrow> trade_signal \<Rightarrow> nat \<times> trading_bot \<Rightarrow> nat \<times> trading_bot" where
  "TradingBot_execute_signal client clock signal (executed_count, self) =
     (let trade = sg_trade signal;
          market = sg_market signal;
          key = trade_key trade
      in if key \<in> tb_executed_trades self then (executed_count, self)
         else if tb_dry_run self then
           (let self1 =
              (case tb_paper_trader self of
                 Some trades \<Rightarrow>
                   self\<lparr>tb_paper_trader :=
                         Some (snd (add_trade (clock (tb_tick self)) (clock (tb_tick self + 1))
                                      trade (m_end_date market) (m_volume market) trades)),
                       tb_tick := tb_tick self + 2\<rparr>
               | None \<Rightarrow> self)
            in (executed_count + 1,
                self1\<lparr>tb_executed_trades := insert key (tb_executed_trades self1)\<rparr>))
         else
           (let success = client trade
            in if success then
                 (executed_count + 1,
                  self\<lparr>tb_executed_trades := insert key (tb_executed_trades self)\<rparr>)
               else (executed_count, self\<lparr>tb_log := tb_log self @ [ERROR]\<rparr>)))"

fun TradingBot_execute_signals ::
  "client \<Rightarrow> clock \<Rightarrow> trade_signal list \<Rightarrow> nat \<times> trading_bot \<Rightarrow> nat \<times> trading_bot" where
  "TradingBot_execute_signals client clock [] st = st"
| "TradingBot_execute_signals client clock (signal # rest) st =
     TradingBot_execute_signals client clock rest
       (TradingBot_execute_signal client clock signal st)"

text \<open>
  \<^verbatim>\<open>TradingBot.run_once\<close>; \<open>markets\<close> is what \<^verbatim>\<open>client.get_markets\<close> returned.
\<close>

definition TradingBot_run_once ::
  "client \<Rightarrow> clock \<Rightarrow> market list \<Rightarrow> trading_bot \<Rightarrow> nat \<times> trading_bot" where
  "TradingBot_run_once client clock markets self =
     (if markets = [] then (0, self\<lparr>tb_log := tb_log self @ [WARNING]\<rparr>)
      else
        (let (all_signals, lg) =
               TradingBot_collect_signals markets (tb_strategies self) ([], tb_log self)
         in TradingBot_execute_signals client clock all_signals (0, self\<lparr>tb_log := lg\<rparr>)))"

text \<open>
  The signals that the second loop counts as executed, in order: those at which the
  body increments \<open>executed_count\<close>.
\<close>

fun TradingBot_executed_signals ::
  "client \<Rightarrow> clock \<Rightarrow> trade_signal list \<Rightarrow> nat \<times> trading_bot \<Rightarrow> trade_signal list" where
  "TradingBot_executed_signals client clock [] st = []"
| "TradingBot_executed_signals client clock (signal # rest) st =
     (let st' = TradingBot_execute_signal client clock signal st
      in (if fst st' = fst st + 1 then [signal] else [])
         @ TradingBot_executed_signals client clock rest st')"

definition TradingBot_run_once_executed ::
  "client \<Rightarrow> clock \<Rightarrow> market list \<Rightarrow> trading_bot \<Rightarrow> trade_signal list" where
  "TradingBot_run_once_executed client clock markets self =
     (if markets = [] then []
      else
        (let (all_signals, lg) =
               TradingBot_collect_signals markets (tb_strategies self) ([], tb_log self)
         in TradingBot_executed_signals client clock all_signals (0, self\<lparr>tb_log := lg\<rparr>)))"

text \<open>
  The loop of \<^verbatim>\<open>TradingBot.run\<close> over the cycles of one process. A cycle is what
  the iteration meets: the behaviour of the client, the markets fetched, and the
  strategies in the state they are in (a strategy may keep memory between cycles).
\<close>

type_synonym cycle = "client \<times> market list \<times> strategy list"

fun TradingBot_run :: "clock \<Rightarrow> cycle list \<Rightarrow> trading_bot \<Rightarrow> trading_bot" where
  "TradingBot_run clock [] self = self"
| "TradingBot_run clock ((client, markets, strategies) # rest) self =
     TradingBot_run clock rest
       (snd (TradingBot_run_once client clock markets (self\<lparr>tb_strategies := strategies\<rparr>)))"

fun TradingBot_run_executed :: "clock \<Rightarrow> cycle list \<Rightarrow> trading_bot \<Rightarrow> trade_signal list" where
  "TradingBot_run_executed clock [] self = []"
| "TradingBot_run_executed clock ((client, markets, strategies) # rest) self =
     TradingBot_run_once_executed client clock markets (self\<lparr>tb_strategies := strategies\<rparr>)
     @ TradingBot_run_executed clock rest
         (snd (TradingBot_run_once client clock markets (self\<lparr>tb_strategies := strategies\<rparr>)))"

section \<open>The Bitcoin 15-minute orchestrator (\<^verbatim>\<open>BTC15MinBot\<close>)\<close>

record btc_bot =
  bb_strategies :: "strategy list"
  bb_dry_run :: bool
  bb_position_tracker :: position_tracker
  bb_tick :: nat
  bb_log :: "log_level list"

text \<open>
  The dispatch of one trade (the part of the loop body under \<^verbatim>\<open># Execute trade\<close>).
\<close>

fun BTC15MinBot_dispatch ::
  "client \<Rightarrow> clock \<Rightarrow> strategy \<Rightarrow> market \<Rightarrow> trade \<Rightarrow> nat \<times> btc_bot \<Rightarrow> nat \<times> btc_bot" where
  "BTC15MinBot_dispatch client clock strategy market trade (executed_count, self) =
     (if bb_dry_run self then
        (let shares = (if t_action trade = ''BUY'' then t_amount trade else - t_amount trade)
         in (executed_count + 1,
             self\<lparr>bb_position_tracker :=
                   snd (add_position (clock (bb_tick self)) (s_name strategy)
                          (t_market_id trade) (t_question trade) (t_side trade) shares
                          (t_price trade) (m_end_date market) (bb_position_tracker self)),
                 bb_tick := bb_tick self + 1\<rparr>))
      else
        (let success = client trade
         in if success then
              (let shares = (if t_action trade = ''BUY'' then t_amount trade
                             else - t_amount trade)
               in (executed_count + 1,
                   self\<lparr>bb_position_tracker :=
                         snd (add_position (clock (bb_tick self)) (s_name strategy)
                                (t_market_id trade) (t_question trade) (t_side trade) shares
                                (t_price trade) (m_end_date market) (bb_position_tracker self)),
                       bb_tick := bb_tick self + 1\<rparr>))
            else (executed_count, self)))"

text \<open>
  The body of the signal loop: the check of a BUY or a SELL against the strategy's
  position, then the dispatch. A skipped BUY logs at info level, a skipped or reduced
  SELL logs a warning.
\<close>

fun BTC15MinBot_process_signal ::
  "client \<Rightarrow> clock \<Rightarrow> strategy \<Rightarrow> trade_signal \<Rightarrow> nat \<times> btc_bot \<Rightarrow> nat \<times> btc_bot" where
  "BTC15MinBot_process_signal client clock strategy signal (executed_count, self) =
     (let trade = sg_trade signal;
          market = sg_market signal
      in if t_action trade = ''BUY'' then
           (case get_position (s_name strategy) (m_id market) (t_side trade)
                   (bb_position_tracker self) of
              Some existing_position \<Rightarrow> (executed_count, self)
            | None \<Rightarrow>
                BTC15MinBot_dispatch client clock strategy market trade (executed_count, self))
         else if t_action trade = ''SELL'' then
           (case get_position (s_name strategy) (m_id market) (t_side trade)
                   (bb_position_tracker self) of
              None \<Rightarrow> (executed_count, self\<lparr>bb_log := bb_log self @ [WARNING]\<rparr>)
            | Some existing_position \<Rightarrow>
                if t_amount trade > p_shares existing_position then
                  BTC15MinBot_dispatch client clock strategy market
                    (trade\<lparr>t_amount := p_shares existing_position\<rparr>)
                    (executed_count, self\<lparr>bb_log := bb_log self @ [WARNING]\<rparr>)
                else
                  BTC15MinBot_dispatch client clock strategy market trade
                    (executed_count, self))
         else BTC15MinBot_dispatch client clock strategy market trade (executed_count, self))"

fun BTC15MinBot_process_signals ::
  "client \<Rightarrow> clock \<Rightarrow> strategy \<Rightarrow> trade_signal list \<Rightarrow> nat \<times> btc_bot
     \<Rightarrow> nat \<times> btc_bot" where
  "BTC15MinBot_process_signals client clock strategy [] st = st"
| "BTC15MinBot_process_signals client clock strategy (signal # rest) st =
     BTC15MinBot_process_signals client clock strategy rest
       (BTC15MinBot_process_signal client clock strategy signal st)"

text \<open>
  The loop over the strategies: a disabled strategy is passed over; an enabled one is
  called with the markets and the result of \<^const>\<open>get_strategy_positions\<close> for its
  name, and its signals are processed at once; an exception is caught and logged as
  an error.
\<close>

fun BTC15MinBot_run_strategies ::
  "client \<Rightarrow> clock \<Rightarrow> market list \<Rightarrow> strategy list \<Rightarrow> nat \<times> btc_bot \<Rightarrow> nat \<times> btc_bot" where
  "BTC15MinBot_run_strategies client clock markets [] st = st"
| "BTC15MinBot_run_strategies client clock markets (strategy # rest) (executed_count, self) =
     BTC15MinBot_run_strategies client clock markets rest
       (if \<not> s_enabled strategy then (executed_count, self)
        else
          (let strategy_positions =
                 get_strategy_positions (s_name strategy) (bb_position_tracker self)
           in case s_analyze strategy markets (Some strategy_positions) of
                Inr signals \<Rightarrow>
                  BTC15MinBot_process_signals client clock strategy signals
                    (executed_count, self)
              | Inl e \<Rightarrow> (executed_count, self\<lparr>bb_log := bb_log self @ [ERROR]\<rparr>)))"

text \<open>
  \<^verbatim>\<open>BTC15MinBot.run_once\<close>; \<open>markets\<close> is what \<^verbatim>\<open>get_btc_15min_markets\<close> returned,
  with the order books of the web socket merged in.
\<close>

definition BTC15MinBot_run_once ::
  "client \<Rightarrow> clock \<Rightarrow> market list \<Rightarrow> btc_bot \<Rightarrow> nat \<times> btc_bot" where
  "BTC15MinBot_run_once client clock markets self =
     (if markets = [] then (0, self\<lparr>bb_log := bb_log self @ [WARNING]\<rparr>)
      else BTC15MinBot_run_strategies client clock markets (bb_strategies self) (0, self))"

section \<open>The two ledgers of a deployment\<close>

text \<open>
  The position ledger and the paper trade ledger are the dictionaries kept in
  \<^verbatim>\<open>positions.json\<close> and \<^verbatim>\<open>paper_trades.json\<close>. \<^verbatim>\<open>TradingBot\<close> builds a
  \<^verbatim>\<open>PaperTradingTracker\<close> (in dry-run mode only) and no \<^verbatim>\<open>PositionTracker\<close>;
  \<^verbatim>\<open>BTC15MinBot\<close> builds a \<^verbatim>\<open>PositionTracker\<close> and no \<^verbatim>\<open>PaperTradingTracker\<close>.
  Given the two ledgers as they were, the functions below give them as an orchestrator
  in the given state leaves them: the ledger it holds is its own copy, the other one
  is untouched.
\<close>

record ledgers =
  lg_positions :: position_tracker
  lg_trades :: paper_tracker

definition TradingBot_ledgers :: "ledgers \<Rightarrow> trading_bot \<Rightarrow> ledgers" where
  "TradingBot_ledgers l self =
     (case tb_paper_trader self of Some trades \<Rightarrow> l\<lparr>lg_trades := trades\<rparr> | None \<Rightarrow> l)"

definition BTC15MinBot_ledgers :: "ledgers \<Rightarrow> btc_bot \<Rightarrow> ledgers" where
  "BTC15MinBot_ledgers l self = l\<lparr>lg_positions := bb_position_tracker self\<rparr>"

section \<open>Example data\<close>

text \<open>
  A market, trades on it, strategies that answer with fixed signals or raise, and
  freshly constructed orchestrators; the concrete instances below are stated on them.
\<close>

definition example_market :: market where
  "example_market =
     \<lparr>m_id = ''m'', m_question = ''q'', m_end_date = ''c'', m_yes_price = 1 / 2,
      m_no_price = 1 / 2, m_volume = 1000, m_active = True\<rparr>"

definition example_trade :: "string \<Rightarrow> int \<Rightarrow> real \<Rightarrow> trade" where
  "example_trade action amount price =
     \<lparr>t_market_id = ''m'', t_question = ''q'', t_side = ''UP'', t_amount = amount,
      t_price = price, t_reason = ''r'', t_action = action\<rparr>"

definition example_signal :: "string \<Rightarrow> int \<Rightarrow> real \<Rightarrow> trade_signal" where
  "example_signal action amount price =
     \<lparr>sg_trade = example_trade action amount price, sg_market = example_market\<rparr>"

definition example_client :: "bool \<Rightarrow> client" where
  "example_client ok = (\<lambda>trade. ok)"

definition example_clock :: clock where
  "example_clock n = ''t'' @ digits n"

definition example_strategy :: "string \<Rightarrow> trade_signal list \<Rightarrow> strategy" where
  "example_strategy name signals =
     \<lparr>s_name = name, s_enabled = True, s_analyze = (\<lambda>markets positions. Inr signals)\<rparr>"

definition failing_strategy :: "string \<Rightarrow> strategy" where
  "failing_strategy name =
     \<lparr>s_name = name, s_enabled = True, s_analyze = (\<lambda>markets positions. Inl ''boom'')\<rparr>"

definition example_position :: "int \<Rightarrow> real \<Rightarrow> position" where
  "example_position shares price =
     \<lparr>p_strategy_name = ''s'', p_market_id = ''m'', p_question = ''q'', p_side = ''UP'',
      p_shares = shares, p_entry_price = price, p_entry_time = ''t0'',
      p_market_close_time = ''c''\<rparr>"

definition example_btc_bot :: "bool \<Rightarrow> strategy list \<Rightarrow> position_tracker \<Rightarrow> btc_bot" where
  "example_btc_bot dry_run strategies positions =
     \<lparr>bb_strategies = strategies, bb_dry_run = dry_run, bb_position_tracker = positions,
      bb_tick = 0, bb_log = []\<rparr>"

definition example_trading_bot :: "bool \<Rightarrow> strategy list \<Rightarrow> trading_bot" where
  "example_trading_bot dry_run strategies =
     \<lparr>tb_strategies = strategies, tb_dry_run = dry_run, tb_executed_trades = {},
      tb_paper_trader = (if dry_run then Some [] else None), tb_tick = 0, tb_log = []\<rparr>"

section \<open>Properties of the position ledger\<close>

lemma list_all_update:
  "list_all P al \<Longrightarrow> P (k, v) \<Longrightarrow> list_all P (AList.update k v al)"
  by (induction al) auto

lemma list_all_delete:
  "list_all P al \<Longrightarrow> list_all P (AList.delete k al)"
  by (induction al) auto

text \<open>
  Claim C2. When \<^const>\<open>add_position\<close> is called on a key whose position holds
  \<open>shares\<^sub>0\<close> at \<open>price\<^sub>0\<close>, with a signed \<open>shares\<close> at \<open>price\<close> such that
  \<open>shares\<^sub>0 + shares \<noteq> 0\<close>, the position afterwards holds \<open>shares\<^sub>0 + shares\<close> at the
  cost-weighted average \<open>(shares\<^sub>0 * price\<^sub>0 + shares * price) / (shares\<^sub>0 + shares)\<close>, and its
  other fields are kept; the sign of \<open>shares\<close> plays no role, so a SELL moves the
  average as well. Prices are reals here, so the equality is exact.
\<close>

theorem add_position_weighted_average:
  assumes ex: "map_of positions (position_key sn mid sd) = Some existing"
      and nz: "p_shares existing + shares \<noteq> 0"
  shows "get_position sn mid sd
           (snd (add_position now sn mid q sd shares price close positions)) =
         Some (existing\<lparr>p_shares := p_shares existing + shares,
                 p_entry_price :=
                   (of_int (p_shares existing) * p_entry_price existing + of_int shares * price)
                     / of_int (p_shares existing + shares)\<rparr>)"
  using ex nz by (simp add: add_position_def get_position_def Let_def update_conv')

text \<open>A SELL of 4 at 0.80 against 10 shares held at 0.50 leaves 6 shares at 0.30.\<close>

theorem add_position_weighted_average_witness:
  "get_position ''s'' ''m'' ''UP''
     (snd (add_position ''t1'' ''s'' ''m'' ''q'' ''UP'' (- 4) (4 / 5) ''c''
        [(''s:m:UP'', \<lparr>p_strategy_name = ''s'', p_market_id = ''m'', p_question = ''q'',
            p_side = ''UP'', p_shares = 10, p_entry_price = 1 / 2, p_entry_time = ''t0'',
            p_market_close_time = ''c''\<rparr>)])) =
   Some \<lparr>p_strategy_name = ''s'', p_market_id = ''m'', p_question = ''q'',
            p_side = ''UP'', p_shares = 6, p_entry_price = 3 / 10, p_entry_time = ''t0'',
            p_market_close_time = ''c''\<rparr>"
  using add_position_weighted_average
    [of "[(''s:m:UP'', \<lparr>p_strategy_name = ''s'', p_market_id = ''m'', p_question = ''q'',
            p_side = ''UP'', p_shares = 10, p_entry_price = 1 / 2, p_entry_time = ''t0'',
            p_market_close_time = ''c''\<rparr>)]"
        "''s''" "''m''" "''UP''" _ "- 4" "''t1''" "''q''" "4 / 5" "''c''"]
  by (simp add: position_key_def)

lemma apply_upsert_other:
  "upsert_key u \<noteq> k \<Longrightarrow> map_of (apply_upsert u positions) k = map_of positions k"
  by (simp add: apply_upsert_def add_position_def upsert_key_def Let_def update_conv'
        delete_conv' split: option.splits)

lemma apply_upsert_same:
  assumes "upsert_key u = k" "u_shares u \<noteq> 0"
      and "\<forall>p. map_of positions k = Some p \<longrightarrow> p_shares p \<noteq> 0"
  shows "held_shares (apply_upsert u positions) k = held_shares positions k + u_shares u"
    and "(map_of (apply_upsert u positions) k = None)
           = (held_shares positions k + u_shares u = 0)"
  using assms
  by (auto simp add: apply_upsert_def add_position_def upsert_key_def Let_def update_conv'
        delete_conv' held_shares_def split: option.splits)

text \<open>
  While the deltas applied to a key are non-zero, the shares held under the key are
  the running sum of the deltas, and the record exists exactly when that sum is not
  zero.
\<close>

lemma apply_upserts_shares:
  assumes "\<forall>u\<in>set us. upsert_key u = k \<longrightarrow> u_shares u \<noteq> 0"
      and "\<forall>p. map_of positions k = Some p \<longrightarrow> p_shares p \<noteq> 0"
  shows "held_shares (apply_upserts us positions) k = held_shares positions k + delta_sum k us
       \<and> ((map_of (apply_upserts us positions) k = None)
            = (held_shares positions k + delta_sum k us = 0))"
  using assms
proof (induction us arbitrary: positions)
  case Nil
  then show ?case by (auto simp: delta_sum_def held_shares_def split: option.splits)
next
  case (Cons u us)
  from Cons.prems(1) have rest: "\<forall>u\<in>set us. upsert_key u = k \<longrightarrow> u_shares u \<noteq> 0"
    by simp
  show ?case
  proof (cases "upsert_key u = k")
    case True
    from Cons.prems True have nz: "u_shares u \<noteq> 0" by simp
    have h: "held_shares (apply_upsert u positions) k = held_shares positions k + u_shares u"
      and a: "(map_of (apply_upsert u positions) k = None)
                = (held_shares positions k + u_shares u = 0)"
      using apply_upsert_same [OF True nz Cons.prems(2)] by simp_all
    have inv: "\<forall>p. map_of (apply_upsert u positions) k = Some p \<longrightarrow> p_shares p \<noteq> 0"
      using h a by (auto simp: held_shares_def split: option.splits)
    from Cons.IH [OF rest inv] h True show ?thesis
      by (simp add: delta_sum_def add.assoc)
  next
    case False
    have m: "map_of (apply_upsert u positions) k = map_of positions k"
      using False by (rule apply_upsert_other)
    then have h: "held_shares (apply_upsert u positions) k = held_shares positions k"
      by (simp add: held_shares_def)
    from Cons.prems(2) m
    have inv: "\<forall>p. map_of (apply_upsert u positions) k = Some p \<longrightarrow> p_shares p \<noteq> 0"
      by simp
    from Cons.IH [OF rest inv] h False show ?thesis
      by (simp add: delta_sum_def)
  qed
qed

lemma apply_upsert_no_zero:
  assumes "u_shares u \<noteq> 0" "no_zero_position positions"
  shows "no_zero_position (apply_upsert u positions)"
proof -
  have ex: "p_shares p \<noteq> 0" if "map_of positions (upsert_key u) = Some p" for p
  proof -
    from that have "(upsert_key u, p) \<in> set positions" by (rule map_of_SomeD)
    with assms(2) show ?thesis
      by (auto simp: no_zero_position_def list_all_iff)
  qed
  show ?thesis
    using assms ex
    by (auto simp add: apply_upsert_def add_position_def upsert_key_def Let_def
          no_zero_position_def intro!: list_all_update list_all_delete split: option.splits)
qed

lemma apply_upserts_no_zero:
  "\<forall>u\<in>set us. u_shares u \<noteq> 0 \<Longrightarrow> no_zero_position positions
     \<Longrightarrow> no_zero_position (apply_upserts us positions)"
  by (induction us arbitrary: positions) (auto intro: apply_upsert_no_zero)

text \<open>
  Claim C3 at a call with \<open>shares = 0\<close>. The branch of \<^const>\<open>add_position\<close> that
  updates a position deletes it when the shares net to zero, but the branch that opens
  a new position stores whatever \<open>shares\<close> it is given. A single call with \<open>shares = 0\<close>
  on an empty ledger is a sequence whose deltas sum to zero, and it leaves a record of
  zero shares where the claim wants none.
\<close>

theorem upsert_zero_shares_retained:
  "delta_sum ''s:m:UP''
     [\<lparr>u_now = ''t0'', u_strategy_name = ''s'', u_market_id = ''m'', u_question = ''q'',
       u_side = ''UP'', u_shares = 0, u_entry_price = 1 / 2, u_market_close_time = ''c''\<rparr>] = 0
   \<and> map_of (apply_upserts
        [\<lparr>u_now = ''t0'', u_strategy_name = ''s'', u_market_id = ''m'', u_question = ''q'',
          u_side = ''UP'', u_shares = 0, u_entry_price = 1 / 2, u_market_close_time = ''c''\<rparr>]
        []) ''s:m:UP''
      = Some \<lparr>p_strategy_name = ''s'', p_market_id = ''m'', p_question = ''q'',
               p_side = ''UP'', p_shares = 0, p_entry_price = 1 / 2, p_entry_time = ''t0'',
               p_market_close_time = ''c''\<rparr>
   \<and> \<not> no_zero_position (apply_upserts
        [\<lparr>u_now = ''t0'', u_strategy_name = ''s'', u_market_id = ''m'', u_question = ''q'',
          u_side = ''UP'', u_shares = 0, u_entry_price = 1 / 2, u_market_close_time = ''c''\<rparr>]
        [])"
  by (simp add: delta_sum_def upsert_key_def position_key_def apply_upsert_def
        add_position_def no_zero_position_def Let_def)

text \<open>
  Claim C3 for calls with non-zero deltas. For a key absent from the ledger and a
  sequence of calls whose deltas for that key are all non-zero and sum to zero, the
  key is absent after the sequence. And a ledger without a zero-share record (the
  empty ledger is one) stays so under every sequence of calls with non-zero deltas: a
  position that nets to zero is deleted.
\<close>

theorem upserts_netting_to_zero:
  "((\<forall>u\<in>set us. upsert_key u = k \<longrightarrow> u_shares u \<noteq> 0)
      \<and> map_of positions k = None \<and> delta_sum k us = 0
        \<longrightarrow> map_of (apply_upserts us positions) k = None)
   \<and> ((\<forall>u\<in>set us. u_shares u \<noteq> 0) \<and> no_zero_position positions
        \<longrightarrow> no_zero_position (apply_upserts us positions))"
proof (intro impI conjI)
  assume a: "(\<forall>u\<in>set us. upsert_key u = k \<longrightarrow> u_shares u \<noteq> 0)
               \<and> map_of positions k = None \<and> delta_sum k us = 0"
  then have 1: "\<forall>u\<in>set us. upsert_key u = k \<longrightarrow> u_shares u \<noteq> 0" by simp
  have 2: "\<forall>p. map_of positions k = Some p \<longrightarrow> p_shares p \<noteq> 0" using a by simp
  from apply_upserts_shares [OF 1 2] a
  show "map_of (apply_upserts us positions) k = None"
    by (simp add: held_shares_def)
next
  assume "(\<forall>u\<in>set us. u_shares u \<noteq> 0) \<and> no_zero_position positions"
  then show "no_zero_position (apply_upserts us positions)"
    by (simp add: apply_upserts_no_zero)
qed

text \<open>A BUY of 5 followed by a SELL of 5 on an empty ledger leaves it empty.\<close>

theorem upserts_netting_to_zero_witness:
  "delta_sum ''s:m:UP''
     [\<lparr>u_now = ''t0'', u_strategy_name = ''s'', u_market_id = ''m'', u_question = ''q'',
       u_side = ''UP'', u_shares = 5, u_entry_price = 1 / 2, u_market_close_time = ''c''\<rparr>,
      \<lparr>u_now = ''t1'', u_strategy_name = ''s'', u_market_id = ''m'', u_question = ''q'',
       u_side = ''UP'', u_shares = - 5, u_entry_price = 3 / 5, u_market_close_time = ''c''\<rparr>] = 0
   \<and> map_of (apply_upserts
     [\<lparr>u_now = ''t0'', u_strategy_name = ''s'', u_market_id = ''m'', u_question = ''q'',
       u_side = ''UP'', u_shares = 5, u_entry_price = 1 / 2, u_market_close_time = ''c''\<rparr>,
      \<lparr>u_now = ''t1'', u_strategy_name = ''s'', u_market_id = ''m'', u_question = ''q'',
       u_side = ''UP'', u_shares = - 5, u_entry_price = 3 / 5, u_market_close_time = ''c''\<rparr>]
     []) ''s:m:UP'' = None
   \<and> no_zero_position (apply_upserts
     [\<lparr>u_now = ''t0'', u_strategy_name = ''s'', u_market_id = ''m'', u_question = ''q'',
       u_side = ''UP'', u_shares = 5, u_entry_price = 1 / 2, u_market_close_time = ''c''\<rparr>,
      \<lparr>u_now = ''t1'', u_strategy_name = ''s'', u_market_id = ''m'', u_question = ''q'',
       u_side = ''UP'', u_shares = - 5, u_entry_price = 3 / 5, u_market_close_time = ''c''\<rparr>]
     [])"
  using upserts_netting_to_zero
    [of "[\<lparr>u_now = ''t0'', u_strategy_name = ''s'', u_market_id = ''m'', u_question = ''q'',
       u_side = ''UP'', u_shares = 5, u_entry_price = 1 / 2, u_market_close_time = ''c''\<rparr>,
      \<lparr>u_now = ''t1'', u_strategy_name = ''s'', u_market_id = ''m'', u_question = ''q'',
       u_side = ''UP'', u_shares = - 5, u_entry_price = 3 / 5, u_market_close_time = ''c''\<rparr>]"
        "''s:m:UP''" "[]"]
  by (simp add: delta_sum_def upsert_key_def position_key_def no_zero_position_def)

section \<open>Properties of the paper trade ledger\<close>

text \<open>
  Claim C6. Resolving an unresolved paper trade marks it resolved with the given
  outcome and stores \<open>profit_loss = payout - entry_price * amount\<close>, where the payout is
  \<open>1.00\<close> per share when the trade's side is the winning side and \<open>0\<close> otherwise (the
  exit price is \<open>1\<close> or \<open>0\<close> accordingly).
\<close>

theorem resolve_trade_pnl:
  assumes "map_of trades trade_id = Some trade" and "\<not> pt_resolved trade"
  shows "map_of (fst (resolve_trade trade_id winning_side trades)) trade_id =
         Some (trade\<lparr>pt_resolved := True,
                 pt_resolution_outcome := Some winning_side,
                 pt_profit_loss :=
                   Some ((if pt_side trade = winning_side then 1 * of_int (pt_amount trade) else 0)
                          - pt_entry_price trade * of_int (pt_amount trade)),
                 pt_exit_price := Some (if pt_side trade = winning_side then 1 else 0)\<rparr>)"
  using assms
  by (simp add: resolve_trade_def calculate_pnl_def Let_def update_conv')

text \<open>
  Ten shares of side A entered at 0.90: resolved for A the profit is 1.00, resolved
  for B it is -9.00.
\<close>

theorem resolve_trade_pnl_witness:
  "map_of (fst (resolve_trade ''m:A:t0'' ''A'' [(''m:A:t0'', \<lparr>pt_trade_id = ''m:A:t0'', pt_market_id = ''m'', pt_question = ''q'',
          pt_side = ''A'', pt_amount = 10, pt_entry_price = 9 / 10, pt_entry_time = ''t0'',
          pt_reason = ''r'', pt_volume = 1000, pt_market_end_date = ''c'',
          pt_resolved = False, pt_resolution_outcome = None, pt_exit_price = None,
          pt_profit_loss = None\<rparr>)])) ''m:A:t0''
     = Some \<lparr>pt_trade_id = ''m:A:t0'', pt_market_id = ''m'', pt_question = ''q'',
          pt_side = ''A'', pt_amount = 10, pt_entry_price = 9 / 10, pt_entry_time = ''t0'',
          pt_reason = ''r'', pt_volume = 1000, pt_market_end_date = ''c'',
          pt_resolved = True, pt_resolution_outcome = Some ''A'', pt_exit_price = Some 1,
          pt_profit_loss = Some 1\<rparr>
   \<and> map_of (fst (resolve_trade ''m:A:t0'' ''B'' [(''m:A:t0'', \<lparr>pt_trade_id = ''m:A:t0'', pt_market_id = ''m'', pt_question = ''q'',
          pt_side = ''A'', pt_amount = 10, pt_entry_price = 9 / 10, pt_entry_time = ''t0'',
          pt_reason = ''r'', pt_volume = 1000, pt_market_end_date = ''c'',
          pt_resolved = False, pt_resolution_outcome = None, pt_exit_price = None,
          pt_profit_loss = None\<rparr>)])) ''m:A:t0''
     = Some \<lparr>pt_trade_id = ''m:A:t0'', pt_market_id = ''m'', pt_question = ''q'',
          pt_side = ''A'', pt_amount = 10, pt_entry_price = 9 / 10, pt_entry_time = ''t0'',
          pt_reason = ''r'', pt_volume = 1000, pt_market_end_date = ''c'',
          pt_resolved = True, pt_resolution_outcome = Some ''B'', pt_exit_price = Some 0,
          pt_profit_loss = Some (- 9)\<rparr>"
  using resolve_trade_pnl [of "[(''m:A:t0'', \<lparr>pt_trade_id = ''m:A:t0'', pt_market_id = ''m'', pt_question = ''q'',
          pt_side = ''A'', pt_amount = 10, pt_entry_price = 9 / 10, pt_entry_time = ''t0'',
          pt_reason = ''r'', pt_volume = 1000, pt_market_end_date = ''c'',
          pt_resolved = False, pt_resolution_outcome = None, pt_exit_price = None,
          pt_profit_loss = None\<rparr>)]" "''m:A:t0''" _ "''A''"]
        resolve_trade_pnl [of "[(''m:A:t0'', \<lparr>pt_trade_id = ''m:A:t0'', pt_market_id = ''m'', pt_question = ''q'',
          pt_side = ''A'', pt_amount = 10, pt_entry_price = 9 / 10, pt_entry_time = ''t0'',
          pt_reason = ''r'', pt_volume = 1000, pt_market_end_date = ''c'',
          pt_resolved = False, pt_resolution_outcome = None, pt_exit_price = None,
          pt_profit_loss = None\<rparr>)]" "''m:A:t0''" _ "''B''"]
  by simp

lemma resolve_trade_unknown:
  "map_of trades trade_id = None \<Longrightarrow> resolve_trade trade_id w trades = (trades, [WARNING])"
  by (simp add: resolve_trade_def)

lemma resolve_trade_resolved:
  "map_of trades trade_id = Some t \<Longrightarrow> pt_resolved t
     \<Longrightarrow> resolve_trade trade_id w trades = (trades, [])"
  by (simp add: resolve_trade_def)

lemma resolve_trade_marks:
  "map_of trades trade_id = Some t \<Longrightarrow> \<not> pt_resolved t
     \<Longrightarrow> \<exists>t'. map_of (fst (resolve_trade trade_id w trades)) trade_id = Some t' \<and> pt_resolved t'"
  by (simp add: resolve_trade_def calculate_pnl_def Let_def update_conv')

lemma resolve_trade_twice:
  "fst (resolve_trade trade_id w' (fst (resolve_trade trade_id w trades)))
     = fst (resolve_trade trade_id w trades)"
proof (cases "map_of trades trade_id")
  case None
  then show ?thesis by (simp add: resolve_trade_unknown)
next
  case (Some t)
  show ?thesis
  proof (cases "pt_resolved t")
    case True
    with Some show ?thesis by (simp add: resolve_trade_resolved)
  next
    case False
    from resolve_trade_marks [OF Some False, of w]
    obtain t' where "map_of (fst (resolve_trade trade_id w trades)) trade_id = Some t'"
      and "pt_resolved t'" by blast
    then show ?thesis by (simp add: resolve_trade_resolved)
  qed
qed

text \<open>
  Claim C7. \<^const>\<open>resolve_trade\<close> leaves the ledger as it is and logs one warning
  when the trade id is unknown; it leaves the ledger as it is (and logs nothing at
  warning level) when the trade is already resolved; so a second resolution of the
  same id, with the same or another outcome, changes no record.
\<close>

theorem resolve_trade_noop:
  "(map_of trades trade_id = None
      \<longrightarrow> resolve_trade trade_id w trades = (trades, [WARNING]))
   \<and> ((\<exists>t. map_of trades trade_id = Some t \<and> pt_resolved t)
      \<longrightarrow> resolve_trade trade_id w trades = (trades, []))
   \<and> fst (resolve_trade trade_id w' (fst (resolve_trade trade_id w trades)))
       = fst (resolve_trade trade_id w trades)"
  by (auto simp: resolve_trade_unknown resolve_trade_resolved resolve_trade_twice)

theorem resolve_trade_noop_witness:
  "resolve_trade ''m:A:t0'' ''A'' [] = ([], [WARNING])
   \<and> resolve_trade ''m:A:t0'' ''B'' [(''m:A:t0'', \<lparr>pt_trade_id = ''m:A:t0'', pt_market_id = ''m'', pt_question = ''q'',
          pt_side = ''A'', pt_amount = 10, pt_entry_price = 9 / 10, pt_entry_time = ''t0'',
          pt_reason = ''r'', pt_volume = 1000, pt_market_end_date = ''c'',
          pt_resolved = True, pt_resolution_outcome = Some ''A'', pt_exit_price = Some 1,
          pt_profit_loss = Some 1\<rparr>)] = ([(''m:A:t0'', \<lparr>pt_trade_id = ''m:A:t0'', pt_market_id = ''m'', pt_question = ''q'',
          pt_side = ''A'', pt_amount = 10, pt_entry_price = 9 / 10, pt_entry_time = ''t0'',
          pt_reason = ''r'', pt_volume = 1000, pt_market_end_date = ''c'',
          pt_resolved = True, pt_resolution_outcome = Some ''A'', pt_exit_price = Some 1,
          pt_profit_loss = Some 1\<rparr>)], [])
   \<and> fst (resolve_trade ''m:A:t0'' ''A'' (fst (resolve_trade ''m:A:t0'' ''A'' [(''m:A:t0'', \<lparr>pt_trade_id = ''m:A:t0'', pt_market_id = ''m'', pt_question = ''q'',
          pt_side = ''A'', pt_amount = 10, pt_entry_price = 9 / 10, pt_entry_time = ''t0'',
          pt_reason = ''r'', pt_volume = 1000, pt_market_end_date = ''c'',
          pt_resolved = False, pt_resolution_outcome = None, pt_exit_price = None,
          pt_profit_loss = None\<rparr>)])))
       = [(''m:A:t0'', \<lparr>pt_trade_id = ''m:A:t0'', pt_market_id = ''m'', pt_question = ''q'',
          pt_side = ''A'', pt_amount = 10, pt_entry_price = 9 / 10, pt_entry_time = ''t0'',
          pt_reason = ''r'', pt_volume = 1000, pt_market_end_date = ''c'',
          pt_resolved = True, pt_resolution_outcome = Some ''A'', pt_exit_price = Some 1,
          pt_profit_loss = Some 1\<rparr>)]"
  using resolve_trade_noop [of "[]" "''m:A:t0''" "''A''" "''A''"]
        resolve_trade_noop [of "[(''m:A:t0'', \<lparr>pt_trade_id = ''m:A:t0'', pt_market_id = ''m'', pt_question = ''q'',
          pt_side = ''A'', pt_amount = 10, pt_entry_price = 9 / 10, pt_entry_time = ''t0'',
          pt_reason = ''r'', pt_volume = 1000, pt_market_end_date = ''c'',
          pt_resolved = True, pt_resolution_outcome = Some ''A'', pt_exit_price = Some 1,
          pt_profit_loss = Some 1\<rparr>)]" "''m:A:t0''" "''B''" "''B''"]
        resolve_trade_noop [of "[(''m:A:t0'', \<lparr>pt_trade_id = ''m:A:t0'', pt_market_id = ''m'', pt_question = ''q'',
          pt_side = ''A'', pt_amount = 10, pt_entry_price = 9 / 10, pt_entry_time = ''t0'',
          pt_reason = ''r'', pt_volume = 1000, pt_market_end_date = ''c'',
          pt_resolved = False, pt_resolution_outcome = None, pt_exit_price = None,
          pt_profit_loss = None\<rparr>)]" "''m:A:t0''" "''A''" "''A''"]
  by (simp add: resolve_trade_def calculate_pnl_def)

lemma filter_map_Nil: "(filter P (map f xs) = []) = (filter (P \<circ> f) xs = [])"
  by (simp add: filter_map)

lemma get_stats_total:
  "\<exists>s. get_stats trades = Inr s"
  by (cases "filter pt_resolved (map snd trades) = []")
     (simp_all add: get_stats_def Let_def py_div_def filter_map_Nil)

lemma get_stats_fields:
  assumes "get_stats trades = Inr s"
  shows "st_total_invested s
           = sum_list (map (\<lambda>t. pt_entry_price t * of_int (pt_amount t)) (map snd trades))"
    and "st_resolved_trades s = length (filter pt_resolved (map snd trades))"
    and "st_pending_trades s = length (filter (\<lambda>t. \<not> pt_resolved t) (map snd trades))"
    and "st_resolved_trades s = 0 \<Longrightarrow> st_win_rate s = 0"
    and "st_total_invested s \<le> 0 \<Longrightarrow> st_roi s = 0"
    and "st_resolved_trades s = 0 \<Longrightarrow> st_total_profit s = 0"
    and "st_roi s = (if st_total_invested s > 0
                     then st_total_profit s / st_total_invested s * 100 else 0)"
  using assms
  by (cases "filter pt_resolved (map snd trades) = []";
      auto simp add: get_stats_def Let_def py_div_def filter_map_Nil split: if_splits)+


lemma sum_list_split_filter:
  fixes f :: "'a \<Rightarrow> real"
  shows "sum_list (map f xs) = sum_list (map f (filter P xs)) + sum_list (map f (filter (\<lambda>x. \<not> P x) xs))"
  by (induction xs) auto

text \<open>
  Claim C9. \<^const>\<open>get_stats\<close> never raises a division error. Its \<open>total_invested\<close>
  is the sum of \<open>entry_price * amount\<close> over all records, the resolved ones and the
  pending ones alike. Its \<open>win_rate\<close> is 0 when there is no resolved trade, and its
  \<open>roi\<close> is 0 when \<open>total_invested\<close> is 0; with no resolved trade the \<open>roi\<close> is 0 as
  well, whatever the pending trades are.
\<close>

theorem get_stats_invested_and_rates:
  "\<exists>s. get_stats trades = Inr s
     \<and> st_total_invested s
         = sum_list (map (\<lambda>t. pt_entry_price t * of_int (pt_amount t)) (map snd trades))
     \<and> st_total_invested s
         = sum_list (map (\<lambda>t. pt_entry_price t * of_int (pt_amount t))
                      (filter pt_resolved (map snd trades)))
           + sum_list (map (\<lambda>t. pt_entry_price t * of_int (pt_amount t))
                        (get_pending_trades trades))
     \<and> (st_resolved_trades s = 0 \<longrightarrow> st_win_rate s = 0 \<and> st_roi s = 0)
     \<and> (st_total_invested s = 0 \<longrightarrow> st_roi s = 0)"
proof -
  obtain s where s: "get_stats trades = Inr s"
    using get_stats_total by blast
  note f = get_stats_fields [OF s]
  have inv: "st_total_invested s
         = sum_list (map (\<lambda>t. pt_entry_price t * of_int (pt_amount t)) (map snd trades))"
    by (rule f(1))
  have part: "st_total_invested s
         = sum_list (map (\<lambda>t. pt_entry_price t * of_int (pt_amount t))
                      (filter pt_resolved (map snd trades)))
           + sum_list (map (\<lambda>t. pt_entry_price t * of_int (pt_amount t))
                        (get_pending_trades trades))"
    unfolding inv get_pending_trades_def by (rule sum_list_split_filter)
  have wr: "st_resolved_trades s = 0 \<longrightarrow> st_win_rate s = 0 \<and> st_roi s = 0"
    using f(4) f(6) f(7) by simp
  have roi: "st_total_invested s = 0 \<longrightarrow> st_roi s = 0"
    using f(5) by simp
  show ?thesis
    by (rule exI [of _ s], intro conjI) (rule s inv part wr roi)+
qed

text \<open>One pending trade of ten shares at 0.90 and no resolved trade.\<close>

theorem get_stats_invested_and_rates_witness:
  "\<exists>s. get_stats [(''m:A:t0'', \<lparr>pt_trade_id = ''m:A:t0'', pt_market_id = ''m'', pt_question = ''q'',
          pt_side = ''A'', pt_amount = 10, pt_entry_price = 9 / 10, pt_entry_time = ''t0'',
          pt_reason = ''r'', pt_volume = 1000, pt_market_end_date = ''c'',
          pt_resolved = False, pt_resolution_outcome = None, pt_exit_price = None,
          pt_profit_loss = None\<rparr>)] = Inr s
     \<and> st_resolved_trades s = 0 \<and> st_pending_trades s = 1
     \<and> st_total_invested s = 9 \<and> st_win_rate s = 0 \<and> st_roi s = 0"
  using get_stats_invested_and_rates [of "[(''m:A:t0'', \<lparr>pt_trade_id = ''m:A:t0'', pt_market_id = ''m'', pt_question = ''q'',
          pt_side = ''A'', pt_amount = 10, pt_entry_price = 9 / 10, pt_entry_time = ''t0'',
          pt_reason = ''r'', pt_volume = 1000, pt_market_end_date = ''c'',
          pt_resolved = False, pt_resolution_outcome = None, pt_exit_price = None,
          pt_profit_loss = None\<rparr>)]"]
  by (simp add: get_stats_def py_div_def get_pending_trades_def)

lemma length_filter3:
  assumes "\<And>x. x \<in> set xs \<Longrightarrow> (P x \<and> \<not> Q x \<and> \<not> R x) \<or> (\<not> P x \<and> Q x \<and> \<not> R x) \<or> (\<not> P x \<and> \<not> Q x \<and> R x)"
  shows "length (filter P xs) + length (filter Q xs) + length (filter R xs) = length xs"
  using assms by (induction xs) auto

lemma get_stats_wins_losses:
  assumes "get_stats trades = Inr s"
  shows "st_winning_trades s
           = length (filter (\<lambda>t. truthy (pt_profit_loss t)
                         \<and> (case pt_profit_loss t of Some x \<Rightarrow> x > 0 | None \<Rightarrow> False))
                      (filter pt_resolved (map snd trades)))"
    and "st_losing_trades s
           = length (filter (\<lambda>t. truthy (pt_profit_loss t)
                         \<and> (case pt_profit_loss t of Some x \<Rightarrow> x \<le> 0 | None \<Rightarrow> False))
                      (filter pt_resolved (map snd trades)))"
  using assms
  by (cases "filter pt_resolved (map snd trades) = []";
      auto simp add: get_stats_def Let_def py_div_def filter_map_Nil split: if_splits)+

text \<open>
  Claim C10. The win and loss filters of \<^const>\<open>get_stats\<close> test the truth value of
  \<open>profit_loss\<close> before its sign, so a resolved trade whose \<open>profit_loss\<close> is \<open>0\<close> (or
  unset) is counted in neither: wins, losses and those trades add up to the resolved
  trades, and as soon as one resolved trade has \<open>profit_loss = 0\<close> the wins and losses
  together are fewer than the resolved trades.
\<close>

theorem get_stats_zero_pnl_uncounted:
  "\<exists>s. get_stats trades = Inr s
     \<and> st_winning_trades s + st_losing_trades s
         + length (filter (\<lambda>t. \<not> truthy (pt_profit_loss t)) (filter pt_resolved (map snd trades)))
         = st_resolved_trades s
     \<and> ((\<exists>t\<in>set (map snd trades). pt_resolved t \<and> pt_profit_loss t = Some 0)
          \<longrightarrow> st_winning_trades s + st_losing_trades s < st_resolved_trades s)"
proof -
  obtain s where s: "get_stats trades = Inr s"
    using get_stats_total by blast
  let ?res = "filter pt_resolved (map snd trades)"
  let ?W = "\<lambda>t. truthy (pt_profit_loss t)
                         \<and> (case pt_profit_loss t of Some x \<Rightarrow> x > 0 | None \<Rightarrow> False)"
  let ?L = "\<lambda>t. truthy (pt_profit_loss t)
                         \<and> (case pt_profit_loss t of Some x \<Rightarrow> x \<le> 0 | None \<Rightarrow> False)"
  let ?Z = "\<lambda>t. \<not> truthy (pt_profit_loss t)"
  have "length (filter ?W ?res) + length (filter ?L ?res) + length (filter ?Z ?res) = length ?res"
    by (rule length_filter3) (auto split: option.splits)
  then have sum: "st_winning_trades s + st_losing_trades s + length (filter ?Z ?res)
                    = st_resolved_trades s"
    using get_stats_wins_losses [OF s] get_stats_fields(2) [OF s] by simp
  have strict: "st_winning_trades s + st_losing_trades s < st_resolved_trades s"
    if "\<exists>t\<in>set (map snd trades). pt_resolved t \<and> pt_profit_loss t = Some 0"
  proof -
    from that obtain t where "t \<in> set (map snd trades)" "pt_resolved t" "pt_profit_loss t = Some 0"
      by blast
    then have "t \<in> set (filter ?Z ?res)" by simp
    then have "0 < length (filter ?Z ?res)" by (simp only: length_pos_if_in_set)
    with sum show ?thesis by linarith
  qed
  show ?thesis
    by (rule exI [of _ s], intro conjI impI) (rule s sum strict, assumption?)+
qed

text \<open>A winning trade entered at 1.00: resolved, and neither a win nor a loss.\<close>

theorem get_stats_zero_pnl_uncounted_witness:
  "fst (resolve_trade ''m:A:t0'' ''A''
          [(''m:A:t0'', \<lparr>pt_trade_id = ''m:A:t0'', pt_market_id = ''m'', pt_question = ''q'',
          pt_side = ''A'', pt_amount = 10, pt_entry_price = 1, pt_entry_time = ''t0'',
          pt_reason = ''r'', pt_volume = 1000, pt_market_end_date = ''c'',
          pt_resolved = False, pt_resolution_outcome = None, pt_exit_price = None,
          pt_profit_loss = None\<rparr>)])
     = [(''m:A:t0'', \<lparr>pt_trade_id = ''m:A:t0'', pt_market_id = ''m'', pt_question = ''q'',
          pt_side = ''A'', pt_amount = 10, pt_entry_price = 1, pt_entry_time = ''t0'',
          pt_reason = ''r'', pt_volume = 1000, pt_market_end_date = ''c'',
          pt_resolved = True, pt_resolution_outcome = Some ''A'', pt_exit_price = Some 1,
          pt_profit_loss = Some 0\<rparr>)]
   \<and> (\<exists>s. get_stats [(''m:A:t0'', \<lparr>pt_trade_id = ''m:A:t0'', pt_market_id = ''m'', pt_question = ''q'',
          pt_side = ''A'', pt_amount = 10, pt_entry_price = 1, pt_entry_time = ''t0'',
          pt_reason = ''r'', pt_volume = 1000, pt_market_end_date = ''c'',
          pt_resolved = True, pt_resolution_outcome = Some ''A'', pt_exit_price = Some 1,
          pt_profit_loss = Some 0\<rparr>)] = Inr s
        \<and> st_resolved_trades s = 1 \<and> st_winning_trades s = 0 \<and> st_losing_trades s = 0)"
  using get_stats_zero_pnl_uncounted [of "[(''m:A:t0'', \<lparr>pt_trade_id = ''m:A:t0'', pt_market_id = ''m'', pt_question = ''q'',
          pt_side = ''A'', pt_amount = 10, pt_entry_price = 1, pt_entry_time = ''t0'',
          pt_reason = ''r'', pt_volume = 1000, pt_market_end_date = ''c'',
          pt_resolved = True, pt_resolution_outcome = Some ''A'', pt_exit_price = Some 1,
          pt_profit_loss = Some 0\<rparr>)]"]
  by (simp add: get_stats_def py_div_def resolve_trade_def calculate_pnl_def)

section \<open>Properties of the orchestrators\<close>

lemmas example_defs = example_market_def example_trade_def example_signal_def
  example_client_def example_clock_def example_strategy_def failing_strategy_def
  example_position_def example_btc_bot_def example_trading_bot_def

lemma add_position_held:
  "held_shares (snd (add_position now sn mid q sd shares price close positions))
       (position_key sn mid sd)
     = held_shares positions (position_key sn mid sd) + shares"
  by (simp add: add_position_def held_shares_def Let_def update_conv' delete_conv'
        split: option.splits)

lemma add_position_closes_ledger:
  "map_of positions (position_key sn mid sd) = Some existing
     \<Longrightarrow> snd (add_position now sn mid q sd (- p_shares existing) price close positions)
         = AList.delete (position_key sn mid sd) positions"
  by (simp add: add_position_def Let_def)

text \<open>
  Claim C1, as stated, fails: no orchestrator writes both ledgers. In dry-run mode
  \<^verbatim>\<open>BTC15MinBot\<close> updates the position ledger and records no paper trade, and
  \<^verbatim>\<open>TradingBot\<close> records a paper trade and updates no position.
\<close>

theorem dispatch_both_ledgers_counterexample:
  "BTC15MinBot_ledgers \<lparr>lg_positions = [], lg_trades = []\<rparr>
     (snd (BTC15MinBot_dispatch (example_client True) example_clock (example_strategy ''s'' [])
             example_market (example_trade ''BUY'' 10 (1 / 2))
             (0, example_btc_bot True [] [])))
     = \<lparr>lg_positions = [(''s:m:UP'', example_position 10 (1 / 2))], lg_trades = []\<rparr>
   \<and> TradingBot_ledgers \<lparr>lg_positions = [], lg_trades = []\<rparr>
       (snd (TradingBot_execute_signal (example_client True) example_clock
               (example_signal ''BUY'' 10 (1 / 2)) (0, example_trading_bot True [])))
     = \<lparr>lg_positions = [],
        lg_trades = [(''m:UP:t0'',
          \<lparr>pt_trade_id = ''m:UP:t0'', pt_market_id = ''m'', pt_question = ''q'',
           pt_side = ''UP'', pt_amount = 10, pt_entry_price = 1 / 2, pt_entry_time = ''t1'',
           pt_reason = ''r'', pt_volume = 1000, pt_market_end_date = ''c'',
           pt_resolved = False, pt_resolution_outcome = None, pt_exit_price = None,
           pt_profit_loss = None\<rparr>)]\<rparr>"
  by (simp add: example_defs BTC15MinBot_ledgers_def TradingBot_ledgers_def add_position_def
        add_trade_def position_key_def trade_key_def str_int_def digits.simps Let_def)

text \<open>
  Claim C1, amended. \<^verbatim>\<open>BTC15MinBot\<close>: in dry-run mode, and in live mode when the
  submission succeeds, the dispatch counts the trade and applies one
  \<^const>\<open>add_position\<close> with \<open>shares = amount\<close> for a BUY and \<open>shares = - amount\<close>
  otherwise, so the shares held under the key change by that delta, the same in both
  modes, and the paper trade ledger is untouched; in live mode when the submission
  fails nothing changes. \<^verbatim>\<open>TradingBot\<close>: in dry-run mode the dispatch of an intent
  whose key was not executed before records it with \<^const>\<open>add_trade\<close> and leaves the
  position ledger untouched; in live mode it changes no ledger.
\<close>

theorem dispatch_ledgers:
  "(bb_dry_run self \<or> client trade \<longrightarrow>
      fst (BTC15MinBot_dispatch client clock strategy market trade (n, self)) = n + 1
      \<and> lg_positions (BTC15MinBot_ledgers l
           (snd (BTC15MinBot_dispatch client clock strategy market trade (n, self))))
          = snd (add_position (clock (bb_tick self)) (s_name strategy) (t_market_id trade)
                   (t_question trade) (t_side trade)
                   (if t_action trade = ''BUY'' then t_amount trade else - t_amount trade)
                   (t_price trade) (m_end_date market) (bb_position_tracker self))
      \<and> held_shares
           (lg_positions (BTC15MinBot_ledgers l
              (snd (BTC15MinBot_dispatch client clock strategy market trade (n, self)))))
           (position_key (s_name strategy) (t_market_id trade) (t_side trade))
          = held_shares (bb_position_tracker self)
              (position_key (s_name strategy) (t_market_id trade) (t_side trade))
            + (if t_action trade = ''BUY'' then t_amount trade else - t_amount trade)
      \<and> lg_trades (BTC15MinBot_ledgers l
           (snd (BTC15MinBot_dispatch client clock strategy market trade (n, self))))
          = lg_trades l)
   \<and> (\<not> bb_dry_run self \<and> \<not> client trade \<longrightarrow>
        BTC15MinBot_dispatch client clock strategy market trade (n, self) = (n, self))
   \<and> (trade_key (sg_trade signal) \<notin> tb_executed_trades tb \<and> tb_dry_run tb
        \<and> tb_paper_trader tb = Some trades \<longrightarrow>
        TradingBot_ledgers l (snd (TradingBot_execute_signal client clock signal (n, tb)))
          = l\<lparr>lg_trades :=
                snd (add_trade (clock (tb_tick tb)) (clock (tb_tick tb + 1)) (sg_trade signal)
                       (m_end_date (sg_market signal)) (m_volume (sg_market signal))
                       trades)\<rparr>)
   \<and> (\<not> tb_dry_run tb \<longrightarrow>
        TradingBot_ledgers l (snd (TradingBot_execute_signal client clock signal (n, tb)))
          = TradingBot_ledgers l tb)"
proof (intro conjI impI)
  assume a: "bb_dry_run self \<or> client trade"
  let ?r = "BTC15MinBot_dispatch client clock strategy market trade (n, self)"
  let ?d = "if t_action trade = ''BUY'' then t_amount trade else - t_amount trade"
  show "fst ?r = n + 1" using a by (auto simp: Let_def)
  show p: "lg_positions (BTC15MinBot_ledgers l (snd ?r))
          = snd (add_position (clock (bb_tick self)) (s_name strategy) (t_market_id trade)
                   (t_question trade) (t_side trade) ?d
                   (t_price trade) (m_end_date market) (bb_position_tracker self))"
    using a by (auto simp: Let_def BTC15MinBot_ledgers_def)
  show "held_shares (lg_positions (BTC15MinBot_ledgers l (snd ?r)))
           (position_key (s_name strategy) (t_market_id trade) (t_side trade))
          = held_shares (bb_position_tracker self)
              (position_key (s_name strategy) (t_market_id trade) (t_side trade)) + ?d"
    unfolding p by (rule add_position_held)
  show "lg_trades (BTC15MinBot_ledgers l (snd ?r)) = lg_trades l"
    by (simp add: BTC15MinBot_ledgers_def)
next
  assume "\<not> bb_dry_run self \<and> \<not> client trade"
  then show "BTC15MinBot_dispatch client clock strategy market trade (n, self) = (n, self)"
    by simp
next
  assume "trade_key (sg_trade signal) \<notin> tb_executed_trades tb \<and> tb_dry_run tb
        \<and> tb_paper_trader tb = Some trades"
  then show "TradingBot_ledgers l (snd (TradingBot_execute_signal client clock signal (n, tb)))
          = l\<lparr>lg_trades :=
                snd (add_trade (clock (tb_tick tb)) (clock (tb_tick tb + 1)) (sg_trade signal)
                       (m_end_date (sg_market signal)) (m_volume (sg_market signal))
                       trades)\<rparr>"
    by (simp add: Let_def TradingBot_ledgers_def)
next
  assume "\<not> tb_dry_run tb"
  then show "TradingBot_ledgers l (snd (TradingBot_execute_signal client clock signal (n, tb)))
          = TradingBot_ledgers l tb"
    by (simp add: Let_def TradingBot_ledgers_def)
qed

text \<open>
  A SELL of 4 against 10 shares: 6 shares are left in dry-run mode and after a
  successful live submission, 10 after a failed one; a dry-run BUY in
  \<^verbatim>\<open>TradingBot\<close> adds one paper trade.
\<close>

theorem dispatch_ledgers_witness:
  "held_shares
     (bb_position_tracker
        (snd (BTC15MinBot_dispatch (example_client False) example_clock
                (example_strategy ''s'' []) example_market (example_trade ''SELL'' 4 (4 / 5))
                (0, example_btc_bot True [] [(''s:m:UP'', example_position 10 (1 / 2))]))))
     ''s:m:UP'' = 6
   \<and> held_shares
     (bb_position_tracker
        (snd (BTC15MinBot_dispatch (example_client True) example_clock
                (example_strategy ''s'' []) example_market (example_trade ''SELL'' 4 (4 / 5))
                (0, example_btc_bot False [] [(''s:m:UP'', example_position 10 (1 / 2))]))))
     ''s:m:UP'' = 6
   \<and> BTC15MinBot_dispatch (example_client False) example_clock
         (example_strategy ''s'' []) example_market (example_trade ''SELL'' 4 (4 / 5))
         (0, example_btc_bot False [] [(''s:m:UP'', example_position 10 (1 / 2))])
       = (0, example_btc_bot False [] [(''s:m:UP'', example_position 10 (1 / 2))])
   \<and> map (\<lambda>(k, t). (k, pt_amount t))
        (lg_trades (TradingBot_ledgers \<lparr>lg_positions = [], lg_trades = []\<rparr>
           (snd (TradingBot_execute_signal (example_client True) example_clock
                   (example_signal ''BUY'' 10 (1 / 2)) (0, example_trading_bot True [])))))
       = [(''m:UP:t0'', 10)]
   \<and> TradingBot_ledgers \<lparr>lg_positions = [], lg_trades = []\<rparr>
        (snd (TradingBot_execute_signal (example_client True) example_clock
                (example_signal ''BUY'' 10 (1 / 2)) (0, example_trading_bot False [])))
       = \<lparr>lg_positions = [], lg_trades = []\<rparr>"
  using dispatch_ledgers
          [of "example_btc_bot True [] [(''s:m:UP'', example_position 10 (1 / 2))]"
              "example_client False" "example_trade ''SELL'' 4 (4 / 5)" example_clock
              "example_strategy ''s'' []" example_market 0
              "\<lparr>lg_positions = [], lg_trades = []\<rparr>"
              "example_signal ''BUY'' 10 (1 / 2)" "example_trading_bot True []" "[]"]
        dispatch_ledgers
          [of "example_btc_bot False [] [(''s:m:UP'', example_position 10 (1 / 2))]"
              "example_client True" "example_trade ''SELL'' 4 (4 / 5)" example_clock
              "example_strategy ''s'' []" example_market 0
              "\<lparr>lg_positions = [], lg_trades = []\<rparr>"
              "example_signal ''BUY'' 10 (1 / 2)" "example_trading_bot False []" "[]"]
        dispatch_ledgers
          [of "example_btc_bot False [] [(''s:m:UP'', example_position 10 (1 / 2))]"
              "example_client False" "example_trade ''SELL'' 4 (4 / 5)" example_clock
              "example_strategy ''s'' []" example_market 0
              "\<lparr>lg_positions = [], lg_trades = []\<rparr>"
              "example_signal ''BUY'' 10 (1 / 2)" "example_trading_bot False []" "[]"]
  by (simp add: example_defs TradingBot_ledgers_def BTC15MinBot_ledgers_def held_shares_def
        add_position_def add_trade_def position_key_def trade_key_def str_int_def
        digits.simps Let_def)

text \<open>
  Claim C5 at a signal whose trade names another market than the signal's. The loop
  body of \<^verbatim>\<open>BTC15MinBot.run_once\<close> looks the position up under \<^verbatim>\<open>market.id\<close> and
  books the trade under \<^verbatim>\<open>trade.market_id\<close>. For a SELL of 15 with
  \<^verbatim>\<open>trade.market_id = 'x'\<close> on market \<^verbatim>\<open>m\<close>, where the strategy holds 10 shares,
  the amount is set to 10 and the trade is counted, but the position on \<^verbatim>\<open>m\<close> keeps
  its 10 shares and a position of -10 shares is opened on \<^verbatim>\<open>x\<close>: the position the
  SELL was checked against is not closed.
\<close>

theorem sell_other_market_id_keeps_position:
  "BTC15MinBot_process_signal (example_client True) example_clock (example_strategy ''s'' [])
     \<lparr>sg_trade = (example_trade ''SELL'' 15 (3 / 5))\<lparr>t_market_id := ''x''\<rparr>,
      sg_market = example_market\<rparr>
     (0, example_btc_bot True [] [(''s:m:UP'', example_position 10 (1 / 2))])
   = (1, (example_btc_bot True []
            [(''s:m:UP'', example_position 10 (1 / 2)),
             (''s:x:UP'', (example_position (- 10) (3 / 5))\<lparr>p_market_id := ''x''\<rparr>)])
           \<lparr>bb_tick := 1, bb_log := [WARNING]\<rparr>)"
  by (simp add: example_defs get_position_def add_position_def position_key_def
        digits.simps Let_def)

text \<open>
  Claim C5 for a SELL signal of \<^verbatim>\<open>BTC15MinBot\<close>. When the strategy holds no position
  for the market and side, the signal is skipped with one warning, and the count, the
  ledger and the clock are as before. When it holds one and the amount of the intent
  exceeds its shares, the trade is dispatched with the amount set to those shares,
  after one warning. Then, for an intent that names the market of its signal: in
  dry-run mode, and in live mode when the client accepts the reduced trade, the count
  grows by one and the ledger afterwards is the ledger before without that key, all
  other records as they were; in live mode when the client refuses, nothing but the
  log changes.
\<close>

theorem sell_validation:
  assumes sell: "t_action (sg_trade signal) = ''SELL''"
  shows "(get_position (s_name strategy) (m_id (sg_market signal)) (t_side (sg_trade signal))
             (bb_position_tracker self) = None
           \<longrightarrow> BTC15MinBot_process_signal client clock strategy signal (n, self)
                 = (n, self\<lparr>bb_log := bb_log self @ [WARNING]\<rparr>))
       \<and> (\<forall>existing.
             get_position (s_name strategy) (m_id (sg_market signal)) (t_side (sg_trade signal))
               (bb_position_tracker self) = Some existing
             \<and> t_amount (sg_trade signal) > p_shares existing
           \<longrightarrow> BTC15MinBot_process_signal client clock strategy signal (n, self)
                 = BTC15MinBot_dispatch client clock strategy (sg_market signal)
                     ((sg_trade signal)\<lparr>t_amount := p_shares existing\<rparr>)
                     (n, self\<lparr>bb_log := bb_log self @ [WARNING]\<rparr>)
               \<and> (t_market_id (sg_trade signal) = m_id (sg_market signal)
                    \<and> (bb_dry_run self
                        \<or> client ((sg_trade signal)\<lparr>t_amount := p_shares existing\<rparr>))
                  \<longrightarrow> BTC15MinBot_process_signal client clock strategy signal (n, self)
                        = (n + 1,
                           self\<lparr>bb_position_tracker :=
                                  AList.delete
                                    (position_key (s_name strategy) (m_id (sg_market signal))
                                       (t_side (sg_trade signal)))
                                    (bb_position_tracker self),
                                bb_tick := bb_tick self + 1,
                                bb_log := bb_log self @ [WARNING]\<rparr>)
                      \<and> get_position (s_name strategy) (m_id (sg_market signal))
                          (t_side (sg_trade signal))
                          (bb_position_tracker
                            (snd (BTC15MinBot_process_signal client clock strategy signal
                                    (n, self))))
                        = None)
               \<and> (\<not> bb_dry_run self
                    \<and> \<not> client ((sg_trade signal)\<lparr>t_amount := p_shares existing\<rparr>)
                  \<longrightarrow> BTC15MinBot_process_signal client clock strategy signal (n, self)
                        = (n, self\<lparr>bb_log := bb_log self @ [WARNING]\<rparr>)))"
proof (intro conjI impI allI)
  assume "get_position (s_name strategy) (m_id (sg_market signal)) (t_side (sg_trade signal))
             (bb_position_tracker self) = None"
  with sell show "BTC15MinBot_process_signal client clock strategy signal (n, self)
                 = (n, self\<lparr>bb_log := bb_log self @ [WARNING]\<rparr>)"
    by (simp add: Let_def)
next
  fix existing
  assume a: "get_position (s_name strategy) (m_id (sg_market signal)) (t_side (sg_trade signal))
               (bb_position_tracker self) = Some existing
             \<and> t_amount (sg_trade signal) > p_shares existing"
  with sell show eq: "BTC15MinBot_process_signal client clock strategy signal (n, self)
                 = BTC15MinBot_dispatch client clock strategy (sg_market signal)
                     ((sg_trade signal)\<lparr>t_amount := p_shares existing\<rparr>)
                     (n, self\<lparr>bb_log := bb_log self @ [WARNING]\<rparr>)"
    by (simp add: Let_def)
  from a have m: "map_of (bb_position_tracker self)
       (position_key (s_name strategy) (m_id (sg_market signal)) (t_side (sg_trade signal)))
       = Some existing"
    by (simp add: get_position_def)
  {
    assume b: "t_market_id (sg_trade signal) = m_id (sg_market signal)
                    \<and> (bb_dry_run self
                        \<or> client ((sg_trade signal)\<lparr>t_amount := p_shares existing\<rparr>))"
    show st: "BTC15MinBot_process_signal client clock strategy signal (n, self)
                        = (n + 1,
                           self\<lparr>bb_position_tracker :=
                                  AList.delete
                                    (position_key (s_name strategy) (m_id (sg_market signal))
                                       (t_side (sg_trade signal)))
                                    (bb_position_tracker self),
                                bb_tick := bb_tick self + 1,
                                bb_log := bb_log self @ [WARNING]\<rparr>)"
      unfolding eq using b sell add_position_closes_ledger [OF m]
      by (auto simp add: Let_def)
    show "get_position (s_name strategy) (m_id (sg_market signal))
                          (t_side (sg_trade signal))
                          (bb_position_tracker
                            (snd (BTC15MinBot_process_signal client clock strategy signal
                                    (n, self))))
                        = None"
      unfolding st by (simp add: get_position_def delete_conv')
  }
  {
    assume "\<not> bb_dry_run self
                    \<and> \<not> client ((sg_trade signal)\<lparr>t_amount := p_shares existing\<rparr>)"
    then show "BTC15MinBot_process_signal client clock strategy signal (n, self)
                        = (n, self\<lparr>bb_log := bb_log self @ [WARNING]\<rparr>)"
      unfolding eq by simp
  }
qed

text \<open>
  A SELL of 15 against a position of 10 shares executes with 10 and closes the
  position, in dry-run mode and after a successful live submission; after a failed
  one the position is kept; without a position the SELL is skipped.
\<close>

theorem sell_validation_witness:
  "BTC15MinBot_process_signal (example_client False) example_clock (example_strategy ''s'' [])
     (example_signal ''SELL'' 15 (3 / 5))
     (0, example_btc_bot True [] [(''s:m:UP'', example_position 10 (1 / 2))])
     = (1, (example_btc_bot True [] [])\<lparr>bb_tick := 1, bb_log := [WARNING]\<rparr>)
   \<and> BTC15MinBot_process_signal (example_client True) example_clock (example_strategy ''s'' [])
     (example_signal ''SELL'' 15 (3 / 5))
     (0, example_btc_bot False [] [(''s:m:UP'', example_position 10 (1 / 2))])
     = (1, (example_btc_bot False [] [])\<lparr>bb_tick := 1, bb_log := [WARNING]\<rparr>)
   \<and> BTC15MinBot_process_signal (example_client False) example_clock (example_strategy ''s'' [])
     (example_signal ''SELL'' 15 (3 / 5))
     (0, example_btc_bot False [] [(''s:m:UP'', example_position 10 (1 / 2))])
     = (0, (example_btc_bot False [] [(''s:m:UP'', example_position 10 (1 / 2))])
             \<lparr>bb_log := [WARNING]\<rparr>)
   \<and> BTC15MinBot_process_signal (example_client False) example_clock
       (example_strategy ''s'' []) (example_signal ''SELL'' 15 (3 / 5))
       (0, example_btc_bot True [] [])
     = (0, (example_btc_bot True [] [])\<lparr>bb_log := [WARNING]\<rparr>)"
  using sell_validation
          [of "example_signal ''SELL'' 15 (3 / 5)" "example_strategy ''s'' []"
              "example_btc_bot True [] [(''s:m:UP'', example_position 10 (1 / 2))]"
              "example_client False" example_clock 0]
        sell_validation
          [of "example_signal ''SELL'' 15 (3 / 5)" "example_strategy ''s'' []"
              "example_btc_bot False [] [(''s:m:UP'', example_position 10 (1 / 2))]"
              "example_client True" example_clock 0]
        sell_validation
          [of "example_signal ''SELL'' 15 (3 / 5)" "example_strategy ''s'' []"
              "example_btc_bot False [] [(''s:m:UP'', example_position 10 (1 / 2))]"
              "example_client False" example_clock 0]
        sell_validation
          [of "example_signal ''SELL'' 15 (3 / 5)" "example_strategy ''s'' []"
              "example_btc_bot True [] []" "example_client False" example_clock 0]
  by (simp add: example_defs get_position_def add_position_def position_key_def Let_def)

lemma execute_signal_cases:
  "TradingBot_execute_signal client clock signal (n, self) = (n', self')
     \<Longrightarrow> (n' = n \<and> tb_paper_trader self' = tb_paper_trader self
            \<and> tb_executed_trades self' = tb_executed_trades self)
         \<or> (n' = n + 1 \<and> trade_key (sg_trade signal) \<notin> tb_executed_trades self
            \<and> tb_executed_trades self'
                = insert (trade_key (sg_trade signal)) (tb_executed_trades self))"
  by (auto simp add: Let_def split: if_splits option.splits)

lemma executed_signals_inv:
  "fst (TradingBot_execute_signals client clock signals st)
       = fst st + length (TradingBot_executed_signals client clock signals st)
   \<and> tb_executed_trades (snd (TradingBot_execute_signals client clock signals st))
       = tb_executed_trades (snd st)
         \<union> sig_key ` set (TradingBot_executed_signals client clock signals st)
   \<and> distinct (map sig_key (TradingBot_executed_signals client clock signals st))
   \<and> sig_key ` set (TradingBot_executed_signals client clock signals st)
       \<inter> tb_executed_trades (snd st) = {}"
proof (induction signals arbitrary: st)
  case Nil
  show ?case by simp
next
  case (Cons signal rest)
  obtain n self where st: "st = (n, self)" by (cases st)
  obtain n' self' where r: "TradingBot_execute_signal client clock signal (n, self) = (n', self')"
    by (cases "TradingBot_execute_signal client clock signal (n, self)")
  note ih = Cons.IH [of "(n', self')"]
  from execute_signal_cases [OF r] show ?case
  proof
    assume "n' = n \<and> tb_paper_trader self' = tb_paper_trader self
            \<and> tb_executed_trades self' = tb_executed_trades self"
    with ih show ?thesis
      by (simp add: st r Let_def del: TradingBot_execute_signal.simps)
  next
    assume a: "n' = n + 1 \<and> trade_key (sg_trade signal) \<notin> tb_executed_trades self
            \<and> tb_executed_trades self'
                = insert (trade_key (sg_trade signal)) (tb_executed_trades self)"
    with ih show ?thesis
      by (auto simp add: st r Let_def sig_key_def simp del: TradingBot_execute_signal.simps)
  qed
qed


lemma run_once_inv:
  "fst (TradingBot_run_once client clock markets self)
       = length (TradingBot_run_once_executed client clock markets self)
   \<and> tb_executed_trades (snd (TradingBot_run_once client clock markets self))
       = tb_executed_trades self
         \<union> sig_key ` set (TradingBot_run_once_executed client clock markets self)
   \<and> distinct (map sig_key (TradingBot_run_once_executed client clock markets self))
   \<and> sig_key ` set (TradingBot_run_once_executed client clock markets self)
       \<inter> tb_executed_trades self = {}"
proof (cases "markets = []")
  case True
  then show ?thesis
    by (simp add: TradingBot_run_once_def TradingBot_run_once_executed_def)
next
  case False
  obtain sigs lg where c:
    "TradingBot_collect_signals markets (tb_strategies self) ([], tb_log self) = (sigs, lg)"
    by (cases "TradingBot_collect_signals markets (tb_strategies self) ([], tb_log self)")
  from executed_signals_inv [of client clock sigs "(0, self\<lparr>tb_log := lg\<rparr>)"] False c
  show ?thesis
    by (simp add: TradingBot_run_once_def TradingBot_run_once_executed_def)
qed

lemma run_inv:
  "distinct (map sig_key (TradingBot_run_executed clock cycles self))
   \<and> sig_key ` set (TradingBot_run_executed clock cycles self) \<inter> tb_executed_trades self = {}"
proof (induction cycles arbitrary: self)
  case Nil
  show ?case by simp
next
  case (Cons c cycles)
  obtain client markets strategies where c: "c = (client, markets, strategies)"
    by (cases c)
  let ?b = "self\<lparr>tb_strategies := strategies\<rparr>"
  let ?b' = "snd (TradingBot_run_once client clock markets ?b)"
  note once = run_once_inv [of client clock markets ?b]
  note ih = Cons.IH [of ?b']
  from once have ex: "tb_executed_trades ?b'
       = tb_executed_trades self
         \<union> sig_key ` set (TradingBot_run_once_executed client clock markets ?b)"
    by simp
  from once have d1: "distinct (map sig_key (TradingBot_run_once_executed client clock markets ?b))"
    and i1: "sig_key ` set (TradingBot_run_once_executed client clock markets ?b)
       \<inter> tb_executed_trades self = {}"
    by simp_all
  from ih have d2: "distinct (map sig_key (TradingBot_run_executed clock cycles ?b'))"
    and i2: "sig_key ` set (TradingBot_run_executed clock cycles ?b') \<inter> tb_executed_trades ?b' = {}"
    by simp_all
  from i2 ex have i3: "sig_key ` set (TradingBot_run_executed clock cycles ?b')
       \<inter> sig_key ` set (TradingBot_run_once_executed client clock markets ?b) = {}"
    and i4: "sig_key ` set (TradingBot_run_executed clock cycles ?b') \<inter> tb_executed_trades self = {}"
    by auto
  show ?case
    using d1 d2 i1 i3 i4 by (auto simp add: c)
qed

lemma distinct_triples:
  "distinct (map sig_key signals)
     \<Longrightarrow> distinct (map (\<lambda>signal. (t_market_id (sg_trade signal), t_side (sg_trade signal),
                                t_amount (sg_trade signal))) signals)"
  by (induction signals) (auto simp add: sig_key_def trade_key_def)

text \<open>
  Claim C4, as stated, fails for \<^verbatim>\<open>BTC15MinBot\<close>, which keeps no set of executed
  intents: two SELL intents of one strategy with the same market, side and amount are
  both executed in one cycle.
\<close>

theorem btc_duplicate_sell_counterexample:
  "fst (BTC15MinBot_run_once (example_client True) example_clock [example_market]
          (example_btc_bot True
             [example_strategy ''s''
                [example_signal ''SELL'' 3 (3 / 5), example_signal ''SELL'' 3 (3 / 5)]]
             [(''s:m:UP'', example_position 10 (1 / 2))])) = 2
   \<and> bb_position_tracker
        (snd (BTC15MinBot_run_once (example_client True) example_clock [example_market]
          (example_btc_bot True
             [example_strategy ''s''
                [example_signal ''SELL'' 3 (3 / 5), example_signal ''SELL'' 3 (3 / 5)]]
             [(''s:m:UP'', example_position 10 (1 / 2))])))
      = [(''s:m:UP'', example_position 4 (7 / 20))]"
  by (simp add: example_defs BTC15MinBot_run_once_def get_strategy_positions_def
        get_position_def add_position_def position_key_def Let_def)

text \<open>
  Claim C4, amended to \<^verbatim>\<open>TradingBot\<close>. Over all the cycles of one process, the
  intents counted as executed have pairwise different triples of market, side and
  amount, and none of them has a key that was in \<open>executed_trades\<close> at the start; the
  count a cycle returns is the number of its executed intents; and an intent that is
  not counted leaves the paper trade ledger as it was.
\<close>

theorem at_most_once_per_triple:
  "distinct (map (\<lambda>signal. (t_market_id (sg_trade signal), t_side (sg_trade signal),
                            t_amount (sg_trade signal)))
              (TradingBot_run_executed clock cycles self))
   \<and> (\<forall>signal\<in>set (TradingBot_run_executed clock cycles self).
         sig_key signal \<notin> tb_executed_trades self)
   \<and> fst (TradingBot_run_once client clock markets self)
       = length (TradingBot_run_once_executed client clock markets self)
   \<and> (fst (TradingBot_execute_signal client clock signal (n, self)) = n
        \<longrightarrow> tb_paper_trader (snd (TradingBot_execute_signal client clock signal (n, self)))
             = tb_paper_trader self)"
proof (intro conjI)
  from run_inv [of clock cycles self]
  show "distinct (map (\<lambda>signal. (t_market_id (sg_trade signal), t_side (sg_trade signal),
                            t_amount (sg_trade signal)))
              (TradingBot_run_executed clock cycles self))"
    by (simp add: distinct_triples)
  from run_inv [of clock cycles self]
  show "\<forall>signal\<in>set (TradingBot_run_executed clock cycles self).
         sig_key signal \<notin> tb_executed_trades self"
    by auto
  from run_once_inv [of client clock markets self]
  show "fst (TradingBot_run_once client clock markets self)
       = length (TradingBot_run_once_executed client clock markets self)"
    by simp
  show "fst (TradingBot_execute_signal client clock signal (n, self)) = n
        \<longrightarrow> tb_paper_trader (snd (TradingBot_execute_signal client clock signal (n, self)))
             = tb_paper_trader self"
  proof
    assume a: "fst (TradingBot_execute_signal client clock signal (n, self)) = n"
    obtain n' self' where r: "TradingBot_execute_signal client clock signal (n, self) = (n', self')"
      by (cases "TradingBot_execute_signal client clock signal (n, self)")
    from execute_signal_cases [OF r] a r
    show "tb_paper_trader (snd (TradingBot_execute_signal client clock signal (n, self)))
             = tb_paper_trader self"
      by (auto simp del: TradingBot_execute_signal.simps)
  qed
qed

text \<open>
  The same BUY produced twice in one cycle and once more in the next is executed
  once.
\<close>

theorem at_most_once_per_triple_witness:
  "TradingBot_run_executed example_clock
     [(example_client True, [example_market],
       [example_strategy ''s''
          [example_signal ''BUY'' 10 (1 / 2), example_signal ''BUY'' 10 (1 / 2)]]),
      (example_client True, [example_market],
       [example_strategy ''s'' [example_signal ''BUY'' 10 (1 / 2)]])]
     (example_trading_bot True [])
   = [example_signal ''BUY'' 10 (1 / 2)]"
  using at_most_once_per_triple
    [of example_clock
      "[(example_client True, [example_market],
       [example_strategy ''s''
          [example_signal ''BUY'' 10 (1 / 2), example_signal ''BUY'' 10 (1 / 2)]]),
      (example_client True, [example_market],
       [example_strategy ''s'' [example_signal ''BUY'' 10 (1 / 2)]])]"
      "example_trading_bot True []"]
  by (simp add: example_defs TradingBot_run_once_def TradingBot_run_once_executed_def
        trade_key_def str_int_def digits.simps add_trade_def Let_def)

lemma run_strategies_append:
  "BTC15MinBot_run_strategies client clock markets (before @ after) st
     = BTC15MinBot_run_strategies client clock markets after
         (BTC15MinBot_run_strategies client clock markets before st)"
proof (induction before arbitrary: st)
  case Nil
  show ?case by simp
next
  case (Cons s before)
  obtain n self where st: "st = (n, self)" by (cases st)
  show ?case unfolding st by (simp add: Cons.IH)
qed

lemma collect_signals_append:
  "TradingBot_collect_signals markets (before @ after) acc
     = TradingBot_collect_signals markets after
         (TradingBot_collect_signals markets before acc)"
proof (induction before arbitrary: acc)
  case Nil
  show ?case by simp
next
  case (Cons s before)
  obtain sigs lg where acc: "acc = (sigs, lg)" by (cases acc)
  show ?case unfolding acc by (simp add: Cons.IH)
qed

lemma dispatch_analyze:
  "BTC15MinBot_dispatch client clock (strategy\<lparr>s_analyze := f\<rparr>) market trade st
     = BTC15MinBot_dispatch client clock strategy market trade st"
  by (cases st) (simp add: Let_def)

lemma process_signal_analyze:
  "BTC15MinBot_process_signal client clock (strategy\<lparr>s_analyze := f\<rparr>) signal st
     = BTC15MinBot_process_signal client clock strategy signal st"
  by (cases st)
     (simp add: Let_def dispatch_analyze del: BTC15MinBot_dispatch.simps
        split: option.splits)

lemma process_signals_analyze:
  "BTC15MinBot_process_signals client clock (strategy\<lparr>s_analyze := f\<rparr>) signals st
     = BTC15MinBot_process_signals client clock strategy signals st"
  by (induction signals arbitrary: st) (simp_all add: process_signal_analyze)

lemma own_positions:
  "set (get_strategy_positions name positions)
     = {p \<in> snd ` set positions. p_strategy_name p = name}"
  by (auto simp add: get_strategy_positions_def)

text \<open>
  Claim C8. The positions handed to a strategy are exactly the records of the ledger
  whose \<open>strategy_name\<close> is its own. In \<^verbatim>\<open>BTC15MinBot\<close> an enabled strategy, wherever
  it stands in the list and whatever the strategies before it did, is called with the
  markets and those positions, as the ledger holds them at that moment; its signals
  are processed and the strategies after it run next. When the call raises, one error
  is logged, the count and the ledger stay as they were, and the strategies after it
  run all the same. What a strategy would answer on a list that holds a position of
  another strategy has no influence on the cycle. In \<^verbatim>\<open>TradingBot\<close>, which tracks no
  positions and calls \<^verbatim>\<open>analyze\<close> with the markets alone, a strategy that raises adds
  one error to the log and no signal, and the strategies after it are still asked.
\<close>

theorem strategy_isolation:
  "set (get_strategy_positions name positions)
     = {p \<in> snd ` set positions. p_strategy_name p = name}
   \<and> (s_enabled strategy
        \<and> BTC15MinBot_run_strategies client clock markets before st = (n, self)
        \<and> s_analyze strategy markets
            (Some (get_strategy_positions (s_name strategy) (bb_position_tracker self)))
          = Inr signals
      \<longrightarrow> BTC15MinBot_run_strategies client clock markets (before @ strategy # after) st
            = BTC15MinBot_run_strategies client clock markets after
                (BTC15MinBot_process_signals client clock strategy signals (n, self)))
   \<and> (s_enabled strategy
        \<and> BTC15MinBot_run_strategies client clock markets before st = (n, self)
        \<and> s_analyze strategy markets
            (Some (get_strategy_positions (s_name strategy) (bb_position_tracker self)))
          = Inl e
      \<longrightarrow> BTC15MinBot_run_strategies client clock markets (before @ strategy # after) st
            = BTC15MinBot_run_strategies client clock markets after
                (n, self\<lparr>bb_log := bb_log self @ [ERROR]\<rparr>))
   \<and> ((\<forall>ps. (\<forall>p\<in>set ps. p_strategy_name p = s_name strategy)
              \<longrightarrow> f markets (Some ps) = s_analyze strategy markets (Some ps))
      \<longrightarrow> BTC15MinBot_run_strategies client clock markets
             (before @ strategy\<lparr>s_analyze := f\<rparr> # after) st
            = BTC15MinBot_run_strategies client clock markets (before @ strategy # after) st)
   \<and> (s_enabled strategy
        \<and> TradingBot_collect_signals markets before acc = (all_signals, lg)
        \<and> s_analyze strategy markets None = Inl e
      \<longrightarrow> TradingBot_collect_signals markets (before @ strategy # after) acc
            = TradingBot_collect_signals markets after (all_signals, lg @ [ERROR]))"
proof (intro conjI impI)
  show "set (get_strategy_positions name positions)
     = {p \<in> snd ` set positions. p_strategy_name p = name}"
    by (rule own_positions)
next
  assume "s_enabled strategy
        \<and> BTC15MinBot_run_strategies client clock markets before st = (n, self)
        \<and> s_analyze strategy markets
            (Some (get_strategy_positions (s_name strategy) (bb_position_tracker self)))
          = Inr signals"
  then show "BTC15MinBot_run_strategies client clock markets (before @ strategy # after) st
            = BTC15MinBot_run_strategies client clock markets after
                (BTC15MinBot_process_signals client clock strategy signals (n, self))"
    by (simp add: run_strategies_append)
next
  assume "s_enabled strategy
        \<and> BTC15MinBot_run_strategies client clock markets before st = (n, self)
        \<and> s_analyze strategy markets
            (Some (get_strategy_positions (s_name strategy) (bb_position_tracker self)))
          = Inl e"
  then show "BTC15MinBot_run_strategies client clock markets (before @ strategy # after) st
            = BTC15MinBot_run_strategies client clock markets after
                (n, self\<lparr>bb_log := bb_log self @ [ERROR]\<rparr>)"
    by (simp add: run_strategies_append)
next
  assume agree: "\<forall>ps. (\<forall>p\<in>set ps. p_strategy_name p = s_name strategy)
              \<longrightarrow> f markets (Some ps) = s_analyze strategy markets (Some ps)"
  obtain m b where r: "BTC15MinBot_run_strategies client clock markets before st = (m, b)"
    by (cases "BTC15MinBot_run_strategies client clock markets before st")
  have own: "\<forall>p\<in>set (get_strategy_positions (s_name strategy) (bb_position_tracker b)).
               p_strategy_name p = s_name strategy"
    by (simp add: own_positions)
  with agree have "f markets (Some (get_strategy_positions (s_name strategy)
                                      (bb_position_tracker b)))
      = s_analyze strategy markets
          (Some (get_strategy_positions (s_name strategy) (bb_position_tracker b)))"
    by blast
  then show "BTC15MinBot_run_strategies client clock markets
             (before @ strategy\<lparr>s_analyze := f\<rparr> # after) st
            = BTC15MinBot_run_strategies client clock markets (before @ strategy # after) st"
    by (simp add: run_strategies_append r process_signals_analyze split: sum.splits)
next
  assume "s_enabled strategy
        \<and> TradingBot_collect_signals markets before acc = (all_signals, lg)
        \<and> s_analyze strategy markets None = Inl e"
  then show "TradingBot_collect_signals markets (before @ strategy # after) acc
            = TradingBot_collect_signals markets after (all_signals, lg @ [ERROR])"
    by (simp add: collect_signals_append)
qed

text \<open>
  A strategy that raises, followed by one that buys 10 shares: the purchase is
  executed in the same cycle, in both orchestrators.
\<close>

theorem strategy_isolation_witness:
  "BTC15MinBot_run_once (example_client True) example_clock [example_market]
     (example_btc_bot True
        [failing_strategy ''bad'', example_strategy ''s'' [example_signal ''BUY'' 10 (1 / 2)]]
        [])
   = (1, (example_btc_bot True
            [failing_strategy ''bad'', example_strategy ''s'' [example_signal ''BUY'' 10 (1 / 2)]]
            [(''s:m:UP'', example_position 10 (1 / 2))])
           \<lparr>bb_tick := 1, bb_log := [ERROR]\<rparr>)
   \<and> TradingBot_collect_signals [example_market]
       [failing_strategy ''bad'', example_strategy ''s'' [example_signal ''BUY'' 10 (1 / 2)]]
       ([], [])
     = ([example_signal ''BUY'' 10 (1 / 2)], [ERROR])"
  using strategy_isolation
    [of "''s''" "[]" "failing_strategy ''bad''" "example_client True" example_clock
        "[example_market]" "[]" "(0, example_btc_bot True
        [failing_strategy ''bad'', example_strategy ''s'' [example_signal ''BUY'' 10 (1 / 2)]]
        [])" 0 "example_btc_bot True
        [failing_strategy ''bad'', example_strategy ''s'' [example_signal ''BUY'' 10 (1 / 2)]]
        []" "[]" "[example_strategy ''s'' [example_signal ''BUY'' 10 (1 / 2)]]" "''boom''"
        "\<lambda>markets positions. Inl ''boom''" "([], [])" "[]" "[]"]
  by (simp add: example_defs BTC15MinBot_run_once_def get_strategy_positions_def
        get_position_def add_position_def position_key_def digits.simps Let_def)

end
